theory Spec2Isabelle
  imports Main "HOL-Library.Sublist" "HOL-Library.AList"
begin

text \<open>
  The theme resolver of the portfolio's \<^verbatim>\<open>App\<close> component (\<^verbatim>\<open>src/App.tsx\<close>): the
  helpers \<^verbatim>\<open>getCookie\<close> and \<^verbatim>\<open>setCookie\<close>, the state \<open>isDark\<close> and \<open>hasUserPref\<close>,
  the initialization and apply effects, the listener for the operating system's
  preference and \<open>toggleTheme\<close>. The parts of the platform they use are modelled first:
  strings and URI coding, dates, the cookie jar and the order in which a component's
  effects run.
\<close>

section \<open>Strings of the host language\<close>

text \<open>
  A JavaScript string is a sequence of UTF-16 code units. A code unit is modelled as a
  natural number and a string as the list of its code units; \<open>js\<close> embeds an ASCII
  literal.
\<close>

type_synonym jsstring = "nat list"

definition js :: "string \<Rightarrow> jsstring" where
  "js s = map of_char s"

datatype error = URIError

text \<open>Prepending to the result of a computation that may have thrown.\<close>

definition emit :: "jsstring \<Rightarrow> error + jsstring \<Rightarrow> error + jsstring" where
  "emit p r = (case r of Inl e \<Rightarrow> Inl e | Inr s \<Rightarrow> Inr (p @ s))"

subsection \<open>\<^verbatim>\<open>encodeURIComponent\<close>\<close>

text \<open>
  The characters left alone are \<^verbatim>\<open>A-Z a-z 0-9 - _ . ! ~ * ' ( )\<close>. Every other code
  point is written as the percent-escapes of its UTF-8 octets, with upper-case hexadecimal
  digits; a surrogate without its partner throws \<^verbatim>\<open>URIError\<close>.
\<close>

definition unescaped :: "nat \<Rightarrow> bool" where
  "unescaped c \<longleftrightarrow>
     (65 \<le> c \<and> c \<le> 90) \<or> (97 \<le> c \<and> c \<le> 122) \<or> (48 \<le> c \<and> c \<le> 57) \<or>
     c \<in> set (js ''-_.!~*'' @ [39] @ js ''()'')"

definition hexdigit :: "nat \<Rightarrow> nat" where
  "hexdigit n = (if n < 10 then 48 + n else 55 + n)"

definition percent :: "nat \<Rightarrow> jsstring" where
  "percent b = [37, hexdigit (b div 16), hexdigit (b mod 16)]"

definition utf8_encode :: "nat \<Rightarrow> nat list" where
  "utf8_encode cp =
     (if cp < 0x80 then [cp]
      else if cp < 0x800 then [0xC0 + cp div 64, 0x80 + cp mod 64]
      else if cp < 0x10000 then
        [0xE0 + cp div 4096, 0x80 + (cp div 64) mod 64, 0x80 + cp mod 64]
      else
        [0xF0 + cp div 262144, 0x80 + (cp div 4096) mod 64,
         0x80 + (cp div 64) mod 64, 0x80 + cp mod 64])"

definition escape_cp :: "nat \<Rightarrow> jsstring" where
  "escape_cp cp = concat (map percent (utf8_encode cp))"

definition lead_surrogate :: "nat \<Rightarrow> bool" where
  "lead_surrogate c \<longleftrightarrow> 0xD800 \<le> c \<and> c \<le> 0xDBFF"

definition trail_surrogate :: "nat \<Rightarrow> bool" where
  "trail_surrogate c \<longleftrightarrow> 0xDC00 \<le> c \<and> c \<le> 0xDFFF"

fun encodeURIComponent :: "jsstring \<Rightarrow> error + jsstring" where
  "encodeURIComponent [] = Inr []"
| "encodeURIComponent (c # cs) =
     (if unescaped c then emit [c] (encodeURIComponent cs)
      else if trail_surrogate c then Inl URIError
      else if lead_surrogate c then
        (case cs of
           [] \<Rightarrow> Inl URIError
         | d # ds \<Rightarrow>
             if trail_surrogate d
             then emit (escape_cp ((c - 0xD800) * 0x400 + (d - 0xDC00) + 0x10000))
                       (encodeURIComponent ds)
             else Inl URIError)
      else emit (escape_cp c) (encodeURIComponent cs))"

subsection \<open>\<^verbatim>\<open>decodeURIComponent\<close>\<close>

text \<open>
  A \<^verbatim>\<open>%\<close> must be followed by two hexadecimal digits (either case). An octet below
  \<open>0x80\<close> is the character itself; a larger one must start a well-formed UTF-8 sequence
  whose remaining octets are escaped too. Everything else throws \<^verbatim>\<open>URIError\<close>.
\<close>

definition hexval :: "nat \<Rightarrow> nat option" where
  "hexval c =
     (if 48 \<le> c \<and> c \<le> 57 then Some (c - 48)
      else if 65 \<le> c \<and> c \<le> 70 then Some (c - 55)
      else if 97 \<le> c \<and> c \<le> 102 then Some (c - 87)
      else None)"

fun hex_octet :: "jsstring \<Rightarrow> (nat \<times> jsstring) option" where
  "hex_octet (p # a # b # rest) =
     (if p = 37 then
        (case hexval a of
           None \<Rightarrow> None
         | Some x \<Rightarrow> (case hexval b of None \<Rightarrow> None | Some y \<Rightarrow> Some (16 * x + y, rest)))
      else None)"
| "hex_octet _ = None"

fun take_octets :: "nat \<Rightarrow> jsstring \<Rightarrow> (nat list \<times> jsstring) option" where
  "take_octets 0 s = Some ([], s)"
| "take_octets (Suc n) s =
     (case hex_octet s of
        None \<Rightarrow> None
      | Some (b, r) \<Rightarrow>
          (case take_octets n r of None \<Rightarrow> None | Some (bs, r') \<Rightarrow> Some (b # bs, r')))"

definition continuation :: "nat \<Rightarrow> bool" where
  "continuation b \<longleftrightarrow> 0x80 \<le> b \<and> b \<le> 0xBF"

fun utf8_decode :: "nat list \<Rightarrow> nat option" where
  "utf8_decode [b0, b1] =
     (if 0xC2 \<le> b0 \<and> b0 \<le> 0xDF \<and> continuation b1
      then Some ((b0 - 0xC0) * 64 + (b1 - 0x80)) else None)"
| "utf8_decode [b0, b1, b2] =
     (let cp = (b0 - 0xE0) * 4096 + (b1 - 0x80) * 64 + (b2 - 0x80)
      in if 0xE0 \<le> b0 \<and> b0 \<le> 0xEF \<and> continuation b1 \<and> continuation b2 \<and>
            0x800 \<le> cp \<and> \<not> (0xD800 \<le> cp \<and> cp \<le> 0xDFFF)
         then Some cp else None)"
| "utf8_decode [b0, b1, b2, b3] =
     (let cp = (b0 - 0xF0) * 262144 + (b1 - 0x80) * 4096 + (b2 - 0x80) * 64 + (b3 - 0x80)
      in if 0xF0 \<le> b0 \<and> b0 \<le> 0xF7 \<and> continuation b1 \<and> continuation b2 \<and>
            continuation b3 \<and> 0x10000 \<le> cp \<and> cp \<le> 0x10FFFF
         then Some cp else None)"
| "utf8_decode _ = None"

definition sequence_length :: "nat \<Rightarrow> nat option" where
  "sequence_length b =
     (if 0xC0 \<le> b \<and> b < 0xE0 then Some 2
      else if 0xE0 \<le> b \<and> b < 0xF0 then Some 3
      else if 0xF0 \<le> b \<and> b < 0xF8 then Some 4
      else None)"

definition utf16 :: "nat \<Rightarrow> jsstring" where
  "utf16 cp =
     (if cp < 0x10000 then [cp]
      else [0xD800 + (cp - 0x10000) div 0x400, 0xDC00 + (cp - 0x10000) mod 0x400])"

lemma hex_octet_shorter: "hex_octet s = Some (b, r) \<Longrightarrow> length r < length s"
  by (induction s rule: hex_octet.induct) (auto split: if_splits option.splits)

lemma take_octets_shorter: "take_octets n s = Some (bs, r) \<Longrightarrow> length r \<le> length s"
proof (induction n arbitrary: s bs r)
  case 0
  then show ?case by simp
next
  case (Suc n)
  then show ?case
    by (fastforce split: option.splits prod.splits dest: hex_octet_shorter)
qed

function decodeURIComponent :: "jsstring \<Rightarrow> error + jsstring" where
  "decodeURIComponent [] = Inr []"
| "decodeURIComponent (c # cs) =
     (if c \<noteq> 37 then emit [c] (decodeURIComponent cs)
      else
        (case hex_octet (c # cs) of
           None \<Rightarrow> Inl URIError
         | Some (b, r) \<Rightarrow>
             if b < 0x80 then emit [b] (decodeURIComponent r)
             else
               (case sequence_length b of
                  None \<Rightarrow> Inl URIError
                | Some n \<Rightarrow>
                    (case take_octets (n - 1) r of
                       None \<Rightarrow> Inl URIError
                     | Some (bs, r') \<Rightarrow>
                         (case utf8_decode (b # bs) of
                            None \<Rightarrow> Inl URIError
                          | Some cp \<Rightarrow> emit (utf16 cp) (decodeURIComponent r'))))))"
  by pat_completeness auto
termination
proof (relation "measure length", goal_cases)
  case 1
  show ?case by simp
next
  case (2 c cs)
  then show ?case by simp
next
  case (3 c cs x b r)
  then show ?case using hex_octet_shorter [of "c # cs" b r] by simp
next
  case (4 c cs x b r n y bs r')
  then show ?case
    using hex_octet_shorter [of "c # cs" b r] take_octets_shorter [of "n - 1" r bs r']
    by simp
qed

section \<open>The browser\<close>

subsection \<open>Dates\<close>

text \<open>
  A \<^verbatim>\<open>Date\<close> holds a time value: milliseconds since the epoch, or \<^verbatim>\<open>NaN\<close>
  (\<open>None\<close>) when a value beyond the representable range was set.
  \<^verbatim>\<open>toUTCString\<close> prints \<^verbatim>\<open>Www, DD Mon YYYY HH:mm:ss GMT\<close>. The calendar date is
  computed from the day number in the proleptic Gregorian calendar; the month is counted
  from 0.
\<close>

definition TimeClip :: "int \<Rightarrow> int option" where
  "TimeClip v = (if \<bar>v\<bar> \<le> 8640000000000000 then Some v else None)"

definition Day :: "int \<Rightarrow> int" where
  "Day t = t div 86400000"

definition TimeWithinDay :: "int \<Rightarrow> nat" where
  "TimeWithinDay t = nat (t mod 86400000)"

definition WeekDay :: "int \<Rightarrow> nat" where
  "WeekDay t = nat ((Day t + 4) mod 7)"

definition civil_from_days :: "int \<Rightarrow> int \<times> nat \<times> nat" where
  "civil_from_days days =
     (let z = days + 719468;
          era = z div 146097;
          doe = z mod 146097;
          yoe = (doe - doe div 1460 + doe div 36524 - doe div 146096) div 365;
          doy = doe - (365 * yoe + yoe div 4 - yoe div 100);
          mp = (5 * doy + 2) div 153;
          d = doy - (153 * mp + 2) div 5 + 1;
          m = (if mp < 10 then mp + 3 else mp - 9);
          y = yoe + era * 400 + (if m \<le> 2 then 1 else 0)
      in (y, nat (m - 1), nat d))"

definition YearFromTime :: "int \<Rightarrow> int" where
  "YearFromTime t = fst (civil_from_days (Day t))"

definition MonthFromTime :: "int \<Rightarrow> nat" where
  "MonthFromTime t = fst (snd (civil_from_days (Day t)))"

definition DateFromTime :: "int \<Rightarrow> nat" where
  "DateFromTime t = snd (snd (civil_from_days (Day t)))"

text \<open>
  Decimal digits. A year is printed with at least four digits; the years of the
  representable range have at most six.
\<close>

definition digit :: "nat \<Rightarrow> nat \<Rightarrow> nat" where
  "digit k n = 48 + n div 10 ^ k mod 10"

definition two_digits :: "nat \<Rightarrow> jsstring" where
  "two_digits n = [digit 1 n, digit 0 n]"

definition year_digits :: "nat \<Rightarrow> jsstring" where
  "year_digits y =
     (if y < 10000 then [digit 3 y, digit 2 y, digit 1 y, digit 0 y]
      else if y < 100000 then [digit 4 y, digit 3 y, digit 2 y, digit 1 y, digit 0 y]
      else [digit 5 y, digit 4 y, digit 3 y, digit 2 y, digit 1 y, digit 0 y])"

definition day_names :: "jsstring list" where
  "day_names = map js [''Sun'', ''Mon'', ''Tue'', ''Wed'', ''Thu'', ''Fri'', ''Sat'']"

definition month_names :: "jsstring list" where
  "month_names = map js [''Jan'', ''Feb'', ''Mar'', ''Apr'', ''May'', ''Jun'',
                         ''Jul'', ''Aug'', ''Sep'', ''Oct'', ''Nov'', ''Dec'']"

definition toUTCString :: "int option \<Rightarrow> jsstring" where
  "toUTCString tv =
     (case tv of
        None \<Rightarrow> js ''Invalid Date''
      | Some t \<Rightarrow>
          day_names ! WeekDay t @ js '', '' @ two_digits (DateFromTime t) @ js '' '' @
          month_names ! MonthFromTime t @ js '' '' @
          (if YearFromTime t < 0 then js ''-'' else []) @
          year_digits (nat \<bar>YearFromTime t\<bar>) @ js '' '' @
          two_digits (TimeWithinDay t div 3600000) @ js '':'' @
          two_digits (TimeWithinDay t div 60000 mod 60) @ js '':'' @
          two_digits (TimeWithinDay t div 1000 mod 60) @ js '' GMT'')"

subsection \<open>The cookie jar behind \<^verbatim>\<open>document.cookie\<close>\<close>

text \<open>
  The jar holds the cookies visible to the page as name/value pairs, in the order in which
  \<^verbatim>\<open>document.cookie\<close> lists them. Reading \<^verbatim>\<open>document.cookie\<close> joins the pairs
  with \<^verbatim>\<open>; \<close>. Assigning a string to it stores one cookie: the text before the first
  \<^verbatim>\<open>;\<close> is split at its first \<^verbatim>\<open>=\<close> into name and value, both trimmed; a string
  without \<^verbatim>\<open>=\<close> or with an empty name is ignored; a cookie that is already there is
  replaced in place. All cookies are taken to share one path and domain, and a cookie
  stays in the jar: every write of this program asks for an expiry 365 days ahead, and
  eviction is not modelled.
\<close>

type_synonym jar = "(jsstring \<times> jsstring) list"

fun read_document_cookie :: "jar \<Rightarrow> jsstring" where
  "read_document_cookie [] = []"
| "read_document_cookie [(n, v)] = n @ js ''='' @ v"
| "read_document_cookie ((n, v) # rest) = n @ js ''='' @ v @ js ''; '' @ read_document_cookie rest"

definition whitespace :: "nat \<Rightarrow> bool" where
  "whitespace c \<longleftrightarrow> c = 32 \<or> c = 9"

definition trim :: "jsstring \<Rightarrow> jsstring" where
  "trim s = rev (dropWhile whitespace (rev (dropWhile whitespace s)))"

definition assign_document_cookie :: "jsstring \<Rightarrow> jar \<Rightarrow> jar" where
  "assign_document_cookie s jar =
     (let pair = takeWhile (\<lambda>c. c \<noteq> 59) s;
          name = trim (takeWhile (\<lambda>c. c \<noteq> 61) pair);
          val = trim (drop 1 (dropWhile (\<lambda>c. c \<noteq> 61) pair))
      in if 61 \<notin> set pair \<or> name = [] then jar else AList.update name val jar)"

text \<open>
  The browser as the component sees it: the cookie jar, the local store, whether the
  document's root element carries the class \<^verbatim>\<open>dark\<close>, what the media query
  \<^verbatim>\<open>(prefers-color-scheme: dark)\<close> reports, and the clock. The local store is a map that
  accepts every call; a browser that refuses access to the store, where every call on it
  throws, is not modelled.
\<close>

record browser =
  cookies :: jar
  localStorage :: "jsstring \<rightharpoonup> jsstring"
  dark_class :: bool
  prefers_dark :: bool
  now :: int

section \<open>Theme persistence helpers\<close>

subsection \<open>\<^verbatim>\<open>getCookie\<close>\<close>

text \<open>
  \<^verbatim>\<open>getCookie\<close> escapes every character of \<open>name\<close> that is special in a regular
  expression, so the expression it builds is \<^verbatim>\<open>(?:^|; )\<close>, the literal name,
  \<^verbatim>\<open>=\<close> and the group \<^verbatim>\<open>([^;]*)\<close>. \<open>match_at\<close> is a match attempt at one position
  (\<open>first\<close> says whether it is the start of the input) and returns the group;
  \<open>regex_match\<close> tries the positions from left to right, as \<^verbatim>\<open>String.match\<close> does.
\<close>

definition match_at :: "jsstring \<Rightarrow> bool \<Rightarrow> jsstring \<Rightarrow> jsstring option" where
  "match_at name first s =
     (if first \<and> prefix (name @ js ''='') s
      then Some (takeWhile (\<lambda>c. c \<noteq> 59) (drop (length (name @ js ''='')) s))
      else if prefix (js ''; '' @ name @ js ''='') s
      then Some (takeWhile (\<lambda>c. c \<noteq> 59) (drop (length (js ''; '' @ name @ js ''='')) s))
      else None)"

fun regex_match :: "jsstring \<Rightarrow> bool \<Rightarrow> jsstring \<Rightarrow> jsstring option" where
  "regex_match name first [] = match_at name first []"
| "regex_match name first (c # cs) =
     (case match_at name first (c # cs) of
        Some g \<Rightarrow> Some g
      | None \<Rightarrow> regex_match name False cs)"

definition getCookie :: "jsstring \<Rightarrow> browser \<Rightarrow> error + jsstring option" where
  "getCookie name env =
     (case regex_match name True (read_document_cookie (cookies env)) of
        None \<Rightarrow> Inr None
      | Some g \<Rightarrow>
          (case decodeURIComponent g of Inl e \<Rightarrow> Inl e | Inr v \<Rightarrow> Inr (Some v)))"

subsection \<open>\<^verbatim>\<open>setCookie\<close>\<close>

definition cookie_text :: "jsstring \<Rightarrow> jsstring \<Rightarrow> int \<Rightarrow> int \<Rightarrow> error + jsstring" where
  "cookie_text name val days t =
     (let date = TimeClip (t + days * 24 * 60 * 60 * 1000)
      in case encodeURIComponent val of
           Inl e \<Rightarrow> Inl e
         | Inr enc \<Rightarrow>
             Inr (name @ js ''='' @ enc @ js ''; expires='' @ toUTCString date @
                  js ''; path=/; SameSite=Lax''))"

definition setCookie :: "jsstring \<Rightarrow> jsstring \<Rightarrow> int \<Rightarrow> browser \<Rightarrow> error + browser" where
  "setCookie name val days env =
     (case cookie_text name val days (now env) of
        Inl e \<Rightarrow> Inl e
      | Inr s \<Rightarrow> Inr (env\<lparr>cookies := assign_document_cookie s (cookies env)\<rparr>))"

section \<open>The \<^verbatim>\<open>App\<close> component\<close>

subsection \<open>State and its setters\<close>

text \<open>
  The literal type \<^verbatim>\<open>'light' | 'dark' | 'system'\<close>. The component casts what it reads to
  it without a check, so the values read are arbitrary strings.
\<close>

definition ThemeCookie :: "jsstring set" where
  "ThemeCookie = {js ''light'', js ''dark'', js ''system''}"

record theme_state =
  isDark :: bool
  hasUserPref :: bool

text \<open>
  A call of a state setter is queued and takes effect at the next render:
  \<^verbatim>\<open>setIsDark(b)\<close>, \<^verbatim>\<open>setIsDark((prev) => !prev)\<close> and \<^verbatim>\<open>setHasUserPref(b)\<close>.
\<close>

datatype update = SetIsDark bool | NegateIsDark | SetHasUserPref bool

fun reduce :: "update \<Rightarrow> theme_state \<Rightarrow> theme_state" where
  "reduce (SetIsDark b) s = s\<lparr>isDark := b\<rparr>"
| "reduce NegateIsDark s = s\<lparr>isDark := \<not> isDark s\<rparr>"
| "reduce (SetHasUserPref b) s = s\<lparr>hasUserPref := b\<rparr>"

text \<open>The two \<^verbatim>\<open>useState(false)\<close> calls.\<close>

definition useState_defaults :: theme_state where
  "useState_defaults = \<lparr>isDark = False, hasUserPref = False\<rparr>"

subsection \<open>The effects\<close>

text \<open>\<^verbatim>\<open>a || b\<close> on values that are \<^verbatim>\<open>null\<close> or a string: the empty string is falsy.\<close>

definition logical_or :: "jsstring option \<Rightarrow> jsstring option \<Rightarrow> jsstring option" where
  "logical_or a b = (if a = None \<or> a = Some [] then b else a)"

text \<open>
  The initialization effect: it returns the browser it leaves behind and the setter calls
  it queued; an exception of \<^verbatim>\<open>getCookie\<close> escapes it.
\<close>

definition init_effect :: "browser \<Rightarrow> error + browser \<times> update list" where
  "init_effect env =
     (case getCookie (js ''theme'') env of
        Inl e \<Rightarrow> Inl e
      | Inr c \<Rightarrow>
          (let cookieTheme = logical_or c (localStorage env (js ''theme''));
               mql = prefers_dark env
           in if cookieTheme = Some (js ''dark'') \<or> cookieTheme = Some (js ''light'')
              then Inr (env, [SetIsDark (cookieTheme = Some (js ''dark'')), SetHasUserPref True])
              else
                (case setCookie (js ''theme'') (js ''system'') 365 env of
                   Inl e \<Rightarrow> Inl e
                 | Inr env' \<Rightarrow> Inr (env', [SetIsDark mql, SetHasUserPref False]))))"

text \<open>The apply effect, run with the state of the render it belongs to.\<close>

definition apply_effect :: "theme_state \<Rightarrow> browser \<Rightarrow> error + browser" where
  "apply_effect s env =
     (let env1 = env\<lparr>dark_class := isDark s\<rparr>
      in if hasUserPref s then
           (let val = (if isDark s then js ''dark'' else js ''light'');
                env2 = env1\<lparr>localStorage := (localStorage env1)(js ''theme'' \<mapsto> val)\<rparr>
            in setCookie (js ''theme'') val 365 env2)
         else
           (case setCookie (js ''theme'') (js ''system'') 365 env1 of
              Inl e \<Rightarrow> Inl e
            | Inr env2 \<Rightarrow>
                Inr (env2\<lparr>localStorage := (localStorage env2)(js ''theme'' := None)\<rparr>)))"

text \<open>
  The listener for changes of the media query. It closes over the \<open>hasUserPref\<close> of the
  render that installed it.
\<close>

definition handle :: "bool \<Rightarrow> bool \<Rightarrow> update list" where
  "handle captured e_matches = (if \<not> captured then [SetIsDark e_matches] else [])"

definition toggleTheme :: "update list" where
  "toggleTheme = [SetHasUserPref True, NegateIsDark]"

subsection \<open>Rendering\<close>

text \<open>
  The mounted component: the state of its last render, the browser, the \<open>hasUserPref\<close>
  captured by the installed listener, and the history of the states it rendered with and
  of the states the apply effect ran with (oldest first).

  After queued setter calls the component renders again. When the state is unchanged
  nothing is committed and no effect runs. Otherwise the apply effect runs (one of its
  dependencies \<open>isDark\<close>, \<open>hasUserPref\<close> changed), and the listener is replaced by one
  that captures the new \<open>hasUserPref\<close> when that changed. An exception in an effect
  takes the component down. Every effect runs once per commit, as in a production build.
\<close>

record app =
  state :: theme_state
  window :: browser
  listener :: bool
  renders :: "theme_state list"
  applied :: "theme_state list"

definition rerender :: "update list \<Rightarrow> app \<Rightarrow> error + app" where
  "rerender queue a =
     (let old = state a; new = fold reduce queue old
      in if new = old then Inr a
         else
           (case apply_effect new (window a) of
              Inl e \<Rightarrow> Inl e
            | Inr env \<Rightarrow>
                Inr (a\<lparr>state := new, window := env,
                       listener :=
                         (if hasUserPref new \<noteq> hasUserPref old then hasUserPref new
                          else listener a),
                       renders := renders a @ [new], applied := applied a @ [new]\<rparr>)))"

text \<open>
  Mounting. The first render uses the defaults; then the effects of that render run in
  the order of their declaration, all with its state: initialization, apply, installation
  of the listener. \<open>first_commit\<close> returns the component after these effects and the
  setter calls that initialization queued; \<open>mount\<close> lets them take effect.
\<close>

definition first_commit :: "browser \<Rightarrow> error + app \<times> update list" where
  "first_commit env =
     (let s0 = useState_defaults
      in case init_effect env of
           Inl e \<Rightarrow> Inl e
         | Inr (env1, queue) \<Rightarrow>
             (case apply_effect s0 env1 of
                Inl e \<Rightarrow> Inl e
              | Inr env2 \<Rightarrow>
                  Inr (\<lparr>state = s0, window = env2, listener = hasUserPref s0,
                        renders = [s0], applied = [s0]\<rparr>, queue)))"

definition mount :: "browser \<Rightarrow> error + app" where
  "mount env =
     (case first_commit env of
        Inl e \<Rightarrow> Inl e
      | Inr (a, queue) \<Rightarrow> rerender queue a)"

subsection \<open>Events\<close>

text \<open>
  After mounting, three things happen to the component: a consumer calls \<open>toggleTheme\<close>;
  the operating system's preference changes to \<open>b\<close>, on which the browser updates the
  media query and, if its value changed, calls the listener with \<open>e.matches = b\<close>; or
  time passes (\<open>n\<close> milliseconds).
\<close>

datatype event = ToggleTheme | PrefersDark bool | Elapse nat

fun step :: "event \<Rightarrow> app \<Rightarrow> error + app" where
  "step ToggleTheme a = rerender toggleTheme a"
| "step (PrefersDark b) a =
     (if b = prefers_dark (window a) then Inr a
      else rerender (handle (listener a) b) (a\<lparr>window := (window a)\<lparr>prefers_dark := b\<rparr>\<rparr>))"
| "step (Elapse n) a = Inr (a\<lparr>window := (window a)\<lparr>now := now (window a) + int n\<rparr>\<rparr>)"

fun run :: "event list \<Rightarrow> app \<Rightarrow> error + app" where
  "run [] a = Inr a"
| "run (e # es) a = (case step e a of Inl x \<Rightarrow> Inl x | Inr a' \<Rightarrow> run es a')"

text \<open>
  Loading the page again: a new document, whose dark-mode flag is off, on the storage the
  last one left, at a later time and with whatever the operating system then prefers.
\<close>

definition reload :: "bool \<Rightarrow> int \<Rightarrow> browser \<Rightarrow> browser" where
  "reload os t env = env\<lparr>dark_class := False, prefers_dark := os, now := t\<rparr>"

section \<open>Reading a cookie back from the jar\<close>

text \<open>
  The browser never stores a name containing \<^verbatim>\<open>;\<close> or \<^verbatim>\<open>=\<close>, nor a value containing
  \<^verbatim>\<open>;\<close> (\<open>wf_jar\<close>; an assignment to \<^verbatim>\<open>document.cookie\<close> keeps the jar so, lemma
  \<open>wf_jar_assign\<close>). On such a jar the regular expression of \<open>getCookie\<close> finds the
  value of the first cookie with the given name.
\<close>

definition wf_jar :: "jar \<Rightarrow> bool" where
  "wf_jar jar \<longleftrightarrow> (\<forall>(n, v) \<in> set jar. 59 \<notin> set n \<and> 61 \<notin> set n \<and> 59 \<notin> set v)"

text \<open>What \<^verbatim>\<open>document.cookie\<close> shows after the first cookie.\<close>

fun rest_text :: "jar \<Rightarrow> jsstring" where
  "rest_text [] = []"
| "rest_text ((n, v) # rest) = 59 # 32 # n @ 61 # v @ rest_text rest"

definition ends_group :: "jsstring \<Rightarrow> bool" where
  "ends_group tail \<longleftrightarrow> tail = [] \<or> hd tail = 59"

lemma js_eq: "js ''='' = [61]"
  by (simp add: js_def)

lemma js_sep: "js ''; '' = [59, 32]"
  by (simp add: js_def)

lemma name_prefix:
  fixes n name rest :: jsstring
  shows "61 \<notin> set n \<Longrightarrow> 61 \<notin> set name \<Longrightarrow>
         prefix (name @ [61]) (n @ 61 # rest) \<longleftrightarrow> n = name"
proof (induction name arbitrary: n)
  case Nil
  then show ?case by (cases n) auto
next
  case (Cons a name)
  then show ?case by (cases n) auto
qed

lemma match_at_hit: "match_at name first s = Some g \<Longrightarrow> regex_match name first s = Some g"
  by (cases s) auto

lemma match_at_miss:
  "match_at name first (c # cs) = None \<Longrightarrow>
   regex_match name first (c # cs) = regex_match name False cs"
  by simp

lemma skip_segment:
  "59 \<notin> set seg \<Longrightarrow> regex_match name False (seg @ rest) = regex_match name False rest"
  by (induction seg) (auto simp: match_at_def js_sep)

lemma group_value:
  fixes v tail :: jsstring
  shows "59 \<notin> set v \<Longrightarrow> ends_group tail \<Longrightarrow> takeWhile (\<lambda>c. c \<noteq> 59) (v @ tail) = v"
  by (cases tail) (auto simp: ends_group_def takeWhile_tail)

lemma match_first:
  assumes "59 \<notin> set n" "61 \<notin> set n" "59 \<notin> set v" "61 \<notin> set name" "ends_group tail"
  shows "regex_match name True (n @ 61 # v @ tail) =
           (if n = name then Some v else regex_match name False tail)"
proof (cases "n = name")
  case True
  have "prefix (name @ [61]) (name @ 61 # v @ tail)" by simp
  then have "match_at name True (name @ 61 # v @ tail) = Some v"
    using assms by (simp add: match_at_def js_eq group_value del: same_prefix_prefix)
  with True show ?thesis by (simp add: match_at_hit)
next
  case False
  obtain c cs where split: "n @ [61] @ v = c # cs"
    by (cases "n @ [61] @ v") auto
  have "59 \<notin> set (n @ [61] @ v)" using assms by simp
  then have c: "c \<noteq> 59" and cs: "59 \<notin> set cs" unfolding split by auto
  have whole: "n @ 61 # v @ tail = c # (cs @ tail)"
    using split by simp
  have "\<not> prefix (name @ [61]) (n @ 61 # v @ tail)"
    using assms False by (simp add: name_prefix)
  then have "match_at name True (c # (cs @ tail)) = None"
    using c unfolding whole by (simp add: match_at_def js_eq js_sep)
  then have "regex_match name True (c # (cs @ tail)) = regex_match name False (cs @ tail)"
    by (rule match_at_miss)
  with cs False show ?thesis unfolding whole by (simp add: skip_segment)
qed

lemma match_later:
  assumes "59 \<notin> set n" "61 \<notin> set n" "59 \<notin> set v" "61 \<notin> set name" "ends_group tail"
  shows "regex_match name False (59 # 32 # n @ 61 # v @ tail) =
           (if n = name then Some v else regex_match name False tail)"
proof (cases "n = name")
  case True
  have "match_at name False (59 # 32 # name @ 61 # v @ tail) = Some v"
    using assms by (simp add: match_at_def js_eq js_sep group_value)
  with True show ?thesis by (simp add: match_at_hit)
next
  case False
  have "\<not> prefix (name @ [61]) (n @ 61 # v @ tail)"
    using assms False by (simp add: name_prefix)
  then have "match_at name False (59 # 32 # n @ 61 # v @ tail) = None"
    by (simp add: match_at_def js_eq js_sep)
  then have "regex_match name False (59 # 32 # n @ 61 # v @ tail) =
             regex_match name False (32 # n @ 61 # v @ tail)"
    by (rule match_at_miss)
  also have "\<dots> = regex_match name False ((32 # n @ 61 # v) @ tail)" by simp
  also have "\<dots> = regex_match name False tail"
    using assms by (intro skip_segment) simp
  finally show ?thesis using False by simp
qed

lemma read_document_cookie_Cons:
  "read_document_cookie ((n, v) # rest) = n @ 61 # v @ rest_text rest"
  by (induction rest arbitrary: n v) (auto simp: js_eq js_sep)

lemma ends_group_rest_text: "ends_group (rest_text jar)"
  by (cases jar) (auto simp: ends_group_def)

lemma regex_match_rest:
  "wf_jar jar \<Longrightarrow> 61 \<notin> set name \<Longrightarrow> regex_match name False (rest_text jar) = map_of jar name"
proof (induction jar)
  case Nil
  then show ?case by (simp add: match_at_def js_sep)
next
  case (Cons p jar)
  obtain n v where p: "p = (n, v)" by (cases p)
  from Cons.prems have wf: "59 \<notin> set n" "61 \<notin> set n" "59 \<notin> set v" "wf_jar jar"
    by (auto simp: wf_jar_def p)
  show ?case
    using Cons.IH [OF wf(4) Cons.prems(2)] wf Cons.prems(2)
    by (simp add: p match_later ends_group_rest_text del: regex_match.simps)
qed

lemma regex_match_jar:
  assumes "wf_jar jar" "61 \<notin> set name"
  shows "regex_match name True (read_document_cookie jar) = map_of jar name"
proof (cases jar)
  case Nil
  then show ?thesis by (simp add: match_at_def js_sep js_eq)
next
  case (Cons p rest)
  obtain n v where p: "p = (n, v)" by (cases p)
  from assms have wf: "59 \<notin> set n" "61 \<notin> set n" "59 \<notin> set v" "wf_jar rest"
    by (auto simp: wf_jar_def p Cons)
  show ?thesis
    using wf assms(2) regex_match_rest [OF wf(4) assms(2)]
    by (simp add: Cons p read_document_cookie_Cons match_first ends_group_rest_text
          del: regex_match.simps)
qed

lemma set_trim: "set (trim s) \<subseteq> set s"
proof
  fix x assume "x \<in> set (trim s)"
  then have "x \<in> set (dropWhile whitespace (rev (dropWhile whitespace s)))"
    by (simp add: trim_def)
  then have "x \<in> set (rev (dropWhile whitespace s))" by (rule set_dropWhileD)
  then have "x \<in> set (dropWhile whitespace s)" by simp
  then show "x \<in> set s" by (rule set_dropWhileD)
qed

lemma set_update_subset: "set (AList.update k v al) \<subseteq> insert (k, v) (set al)"
  by (induction al) auto

lemma wf_jar_update:
  "wf_jar jar \<Longrightarrow> 59 \<notin> set n \<Longrightarrow> 61 \<notin> set n \<Longrightarrow> 59 \<notin> set v \<Longrightarrow> wf_jar (AList.update n v jar)"
  unfolding wf_jar_def using set_update_subset [of n v jar] by fastforce

lemma wf_jar_assign: "wf_jar jar \<Longrightarrow> wf_jar (assign_document_cookie s jar)"
proof -
  assume wf: "wf_jar jar"
  let ?pair = "takeWhile (\<lambda>c. c \<noteq> 59) s"
  have p: "59 \<notin> set ?pair" by (auto dest: set_takeWhileD)
  have n: "set (trim (takeWhile (\<lambda>c. c \<noteq> 61) ?pair)) \<subseteq> set ?pair"
    using set_trim set_takeWhileD by fastforce
  have n61: "61 \<notin> set (trim (takeWhile (\<lambda>c. c \<noteq> 61) ?pair))"
    using set_trim [of "takeWhile (\<lambda>c. c \<noteq> 61) ?pair"] by (auto dest: set_takeWhileD)
  have v: "set (trim (drop 1 (dropWhile (\<lambda>c. c \<noteq> 61) ?pair))) \<subseteq> set ?pair"
    using set_trim [of "drop 1 (dropWhile (\<lambda>c. c \<noteq> 61) ?pair)"]
    by (auto dest!: in_set_dropD set_dropWhileD)
  show ?thesis
    using wf p n n61 v
    by (auto simp: assign_document_cookie_def Let_def intro!: wf_jar_update)
qed

lemma theme_name: "61 \<notin> set (js ''theme'')" "59 \<notin> set (js ''theme'')"
  by (simp_all add: js_def)

lemma theme_value: "v \<in> ThemeCookie \<Longrightarrow> 59 \<notin> set v"
  by (auto simp: ThemeCookie_def js_def)

lemma getCookie_jar:
  "wf_jar (cookies env) \<Longrightarrow> 61 \<notin> set name \<Longrightarrow>
   getCookie name env =
     (case map_of (cookies env) name of
        None \<Rightarrow> Inr None
      | Some g \<Rightarrow> (case decodeURIComponent g of Inl e \<Rightarrow> Inl e | Inr v \<Rightarrow> Inr (Some v)))"
  by (simp add: getCookie_def regex_match_jar)

section \<open>Writing a theme value\<close>

lemma encode_theme: "v \<in> ThemeCookie \<Longrightarrow> encodeURIComponent v = Inr v"
  by (auto simp: ThemeCookie_def js_def unescaped_def emit_def)

lemma decode_theme: "v \<in> ThemeCookie \<Longrightarrow> decodeURIComponent v = Inr v"
  by (auto simp: ThemeCookie_def js_def emit_def)

lemma cookie_text_theme:
  "v \<in> ThemeCookie \<Longrightarrow>
   cookie_text name v days t =
     Inr (name @ js ''='' @ v @ js ''; expires='' @
          toUTCString (TimeClip (t + days * 24 * 60 * 60 * 1000)) @ js ''; path=/; SameSite=Lax'')"
  by (simp add: cookie_text_def encode_theme)

lemma assign_theme:
  "v \<in> ThemeCookie \<Longrightarrow>
   assign_document_cookie (js ''theme'' @ js ''='' @ v @ js ''; expires='' @ rest) jar =
     AList.update (js ''theme'') v jar"
  by (auto simp: ThemeCookie_def js_def assign_document_cookie_def trim_def whitespace_def)

lemma setCookie_theme:
  "v \<in> ThemeCookie \<Longrightarrow>
   setCookie (js ''theme'') v days env =
     Inr (env\<lparr>cookies := AList.update (js ''theme'') v (cookies env)\<rparr>)"
  by (simp add: setCookie_def cookie_text_theme assign_theme)

text \<open>An example of the date format.\<close>

lemma date_example:
  "toUTCString (Some 1825148040000) = js ''Tue, 02 Nov 2027 09:34:00 GMT''"
proof -
  have day: "Day 1825148040000 = 21124" by (simp add: Day_def)
  have civil: "civil_from_days 21124 = (2027, 10, 2)"
    unfolding civil_from_days_def Let_def by simp
  have parts: "YearFromTime 1825148040000 = 2027" "MonthFromTime 1825148040000 = 10"
    "DateFromTime 1825148040000 = 2" "WeekDay 1825148040000 = 2"
    "TimeWithinDay 1825148040000 = 34440000"
    by (simp_all add: YearFromTime_def MonthFromTime_def DateFromTime_def WeekDay_def
          TimeWithinDay_def day civil)
  show ?thesis
    by (simp add: toUTCString_def parts day_names_def month_names_def two_digits_def
          year_digits_def digit_def js_def)
qed

section \<open>What is stored, and what the effects do to it\<close>

text \<open>
  The two stored locations: the value of the theme cookie in the jar, which is the value
  last written to it (on a jar a browser can hold \<open>getCookie\<close> reads this value, lemma
  \<open>getCookie_theme_cookie\<close>), and the theme in the local store.
\<close>

definition theme_cookie :: "browser \<Rightarrow> jsstring option" where
  "theme_cookie env = map_of (cookies env) (js ''theme'')"

definition local_theme :: "browser \<Rightarrow> jsstring option" where
  "local_theme env = localStorage env (js ''theme'')"

text \<open>
  The value the apply effect persists for a state, and the browser it leaves behind; the
  state that initialization resolves from what the cookie read returned, the local store's
  theme and the operating system's preference.
\<close>

definition persisted :: "theme_state \<Rightarrow> jsstring" where
  "persisted s =
     (if hasUserPref s then (if isDark s then js ''dark'' else js ''light'') else js ''system'')"

definition after_apply :: "theme_state \<Rightarrow> browser \<Rightarrow> browser" where
  "after_apply s env =
     env\<lparr>cookies := AList.update (js ''theme'') (persisted s) (cookies env),
         localStorage := (localStorage env)
           (js ''theme'' := (if hasUserPref s then Some (persisted s) else None)),
         dark_class := isDark s\<rparr>"

definition resolve :: "jsstring option \<Rightarrow> jsstring option \<Rightarrow> bool \<Rightarrow> theme_state" where
  "resolve c l os =
     (let r = logical_or c l
      in if r = Some (js ''dark'') \<or> r = Some (js ''light'')
         then \<lparr>isDark = (r = Some (js ''dark'')), hasUserPref = True\<rparr>
         else \<lparr>isDark = os, hasUserPref = False\<rparr>)"

text \<open>
  What holds of a component between events, from the end of the page load on: the
  listener captured the current \<open>hasUserPref\<close>, the storage and the document carry what
  the apply effect wrote for the current state, \<open>isDark\<close> follows the operating system
  while there is no explicit preference, and every render was followed by the apply effect.
\<close>

definition settled :: "app \<Rightarrow> bool" where
  "settled a \<longleftrightarrow>
     listener a = hasUserPref (state a) \<and>
     theme_cookie (window a) = Some (persisted (state a)) \<and>
     local_theme (window a) = (if hasUserPref (state a) then Some (persisted (state a)) else None) \<and>
     (hasUserPref (state a) \<or> isDark (state a) = prefers_dark (window a)) \<and>
     dark_class (window a) = isDark (state a) \<and>
     renders a \<noteq> [] \<and> last (renders a) = state a \<and> applied a = renders a"

text \<open>
  The invariant of the specification, and the part of it that concerns the storage only.
\<close>

definition storage_agrees :: "theme_state \<Rightarrow> browser \<Rightarrow> bool" where
  "storage_agrees s env \<longleftrightarrow>
     (hasUserPref s \<longleftrightarrow>
        (theme_cookie env = Some (js ''light'') \<or> theme_cookie env = Some (js ''dark'')) \<and>
        local_theme env = theme_cookie env) \<and>
     (\<not> hasUserPref s \<longrightarrow> theme_cookie env = Some (js ''system'') \<and> local_theme env = None)"

definition storage_invariant :: "theme_state \<Rightarrow> browser \<Rightarrow> bool" where
  "storage_invariant s env \<longleftrightarrow>
     storage_agrees s env \<and> (\<not> hasUserPref s \<longrightarrow> isDark s = prefers_dark env)"

lemma getCookie_theme_cookie:
  assumes "wf_jar (cookies env)" and "theme_cookie env = Some v" and "v \<in> ThemeCookie"
  shows "getCookie (js ''theme'') env = Inr (Some v)"
  using getCookie_jar [OF assms(1) theme_name(1)] assms(2,3)
  by (simp add: theme_cookie_def decode_theme)

subsection \<open>The effects in closed form\<close>

lemma persisted_theme: "persisted s \<in> ThemeCookie"
  by (simp add: persisted_def ThemeCookie_def)

lemma theme_distinct:
  "js ''light'' \<noteq> js ''dark''" "js ''light'' \<noteq> js ''system''" "js ''dark'' \<noteq> js ''system''"
  "js ''dark'' \<noteq> js ''light''" "js ''system'' \<noteq> js ''light''" "js ''system'' \<noteq> js ''dark''"
  "js ''light'' \<noteq> []" "js ''dark'' \<noteq> []" "js ''system'' \<noteq> []"
  by (simp_all add: js_def)

lemma apply_effect_eq: "apply_effect s env = Inr (after_apply s env)"
  by (simp add: apply_effect_def after_apply_def setCookie_theme ThemeCookie_def persisted_def
        Let_def)

lemma after_apply_simps [simp]:
  "theme_cookie (after_apply s env) = Some (persisted s)"
  "local_theme (after_apply s env) = (if hasUserPref s then Some (persisted s) else None)"
  "dark_class (after_apply s env) = isDark s"
  "prefers_dark (after_apply s env) = prefers_dark env"
  "now (after_apply s env) = now env"
  by (simp_all add: after_apply_def theme_cookie_def local_theme_def update_conv')

lemma storage_agrees_after_apply: "storage_agrees s (after_apply s env)"
  by (simp add: storage_agrees_def persisted_def theme_distinct)

lemma settled_invariant: "settled a \<Longrightarrow> storage_invariant (state a) (window a)"
  by (auto simp: settled_def storage_invariant_def storage_agrees_def persisted_def
        theme_distinct)

lemma wf_jar_after_apply: "wf_jar (cookies env) \<Longrightarrow> wf_jar (cookies (after_apply s env))"
  by (simp add: after_apply_def wf_jar_update theme_name theme_value persisted_theme)

lemma init_effect_eq:
  assumes "getCookie (js ''theme'') env = Inr c"
  shows "init_effect env =
     (let r = logical_or c (localStorage env (js ''theme''))
      in if r = Some (js ''dark'') \<or> r = Some (js ''light'')
         then Inr (env, [SetIsDark (r = Some (js ''dark'')), SetHasUserPref True])
         else Inr (env\<lparr>cookies := AList.update (js ''theme'') (js ''system'') (cookies env)\<rparr>,
                   [SetIsDark (prefers_dark env), SetHasUserPref False]))"
  using assms by (simp add: init_effect_def setCookie_theme ThemeCookie_def Let_def)

lemma init_effect_resolve:
  assumes "getCookie (js ''theme'') env = Inr c"
  shows "\<exists>env' q. init_effect env = Inr (env', q) \<and>
           fold reduce q s = resolve c (localStorage env (js ''theme'')) (prefers_dark env) \<and>
           prefers_dark env' = prefers_dark env \<and> localStorage env' = localStorage env \<and>
           now env' = now env \<and>
           (wf_jar (cookies env) \<longrightarrow> wf_jar (cookies env'))"
  using assms
  by (auto simp: init_effect_eq resolve_def Let_def wf_jar_update theme_name js_def)

lemma init_effect_throws:
  "getCookie (js ''theme'') env = Inl e \<Longrightarrow> init_effect env = Inl e"
  by (simp add: init_effect_def)

subsection \<open>Rendering keeps the component settled\<close>

lemma rerender_eq:
  "rerender q a =
     (let new = fold reduce q (state a)
      in if new = state a then Inr a
         else Inr (a\<lparr>state := new, window := after_apply new (window a),
                     listener := (if hasUserPref new \<noteq> hasUserPref (state a)
                                  then hasUserPref new else listener a),
                     renders := renders a @ [new], applied := applied a @ [new]\<rparr>))"
  by (simp add: rerender_def apply_effect_eq Let_def)

lemma settled_rerender:
  assumes "listener a = hasUserPref (state a)" "renders a \<noteq> []" "applied a = renders a"
    "last (renders a) = state a"
    "theme_cookie (window a) = Some (persisted (state a))"
    "local_theme (window a) = (if hasUserPref (state a) then Some (persisted (state a)) else None)"
    "dark_class (window a) = isDark (state a)"
    and "hasUserPref (fold reduce q (state a)) \<or>
         isDark (fold reduce q (state a)) = prefers_dark (window a)"
  shows "\<exists>a'. rerender q a = Inr a' \<and> settled a' \<and> state a' = fold reduce q (state a) \<and>
           prefers_dark (window a') = prefers_dark (window a) \<and>
           (wf_jar (cookies (window a)) \<longrightarrow> wf_jar (cookies (window a')))"
  using assms by (auto simp: rerender_eq settled_def Let_def wf_jar_after_apply)

lemma rerender_history:
  "rerender q a = Inr a' \<Longrightarrow> renders a \<noteq> [] \<Longrightarrow> applied a \<noteq> [] \<Longrightarrow>
   hd (renders a') = hd (renders a) \<and> hd (applied a') = hd (applied a)"
  by (auto simp: rerender_eq Let_def split: if_splits)

lemma first_commit_eq:
  assumes "init_effect env = Inr (env1, q)"
  shows "first_commit env =
           Inr (\<lparr>state = useState_defaults, window = after_apply useState_defaults env1,
                 listener = False, renders = [useState_defaults],
                 applied = [useState_defaults]\<rparr>, q)"
  using assms by (simp add: first_commit_def apply_effect_eq Let_def useState_defaults_def)

lemma mount_throws: "getCookie (js ''theme'') env = Inl e \<Longrightarrow> mount env = Inl e"
  by (simp add: mount_def first_commit_def init_effect_throws)

lemma mount_resolve:
  assumes "getCookie (js ''theme'') env = Inr c"
  shows "\<exists>a. mount env = Inr a \<and> settled a \<and>
           state a = resolve c (localStorage env (js ''theme'')) (prefers_dark env) \<and>
           prefers_dark (window a) = prefers_dark env \<and>
           hd (renders a) = useState_defaults \<and> hd (applied a) = useState_defaults \<and>
           (wf_jar (cookies env) \<longrightarrow> wf_jar (cookies (window a)))"
proof -
  let ?s0 = useState_defaults
  from init_effect_resolve [OF assms, of ?s0] obtain env1 q
    where init: "init_effect env = Inr (env1, q)"
      and q: "fold reduce q ?s0 = resolve c (localStorage env (js ''theme'')) (prefers_dark env)"
      and os: "prefers_dark env1 = prefers_dark env"
      and wf: "wf_jar (cookies env) \<longrightarrow> wf_jar (cookies env1)"
    by blast
  let ?a0 = "\<lparr>state = ?s0, window = after_apply ?s0 env1, listener = False,
              renders = [?s0], applied = [?s0]\<rparr>"
  have first: "first_commit env = Inr (?a0, q)"
    using init by (rule first_commit_eq)
  have adaptive: "hasUserPref (fold reduce q (state ?a0)) \<or>
                  isDark (fold reduce q (state ?a0)) = prefers_dark (window ?a0)"
    using q os by (simp add: resolve_def Let_def)
  have "\<exists>a'. rerender q ?a0 = Inr a' \<and> settled a' \<and> state a' = fold reduce q (state ?a0) \<and>
           prefers_dark (window a') = prefers_dark (window ?a0) \<and>
           (wf_jar (cookies (window ?a0)) \<longrightarrow> wf_jar (cookies (window a')))"
    using adaptive by (intro settled_rerender) (simp_all add: useState_defaults_def)
  then obtain a where a: "rerender q ?a0 = Inr a" "settled a" "state a = fold reduce q ?s0"
    "prefers_dark (window a) = prefers_dark env1"
    "wf_jar (cookies (after_apply ?s0 env1)) \<longrightarrow> wf_jar (cookies (window a))"
    by auto
  have "hd (renders a) = ?s0 \<and> hd (applied a) = ?s0"
    using rerender_history [OF a(1)] by simp
  moreover have "mount env = Inr a"
    using first a(1) by (simp add: mount_def)
  ultimately show ?thesis
    using a q os wf by (auto intro: wf_jar_after_apply)
qed

subsection \<open>Events keep the component settled\<close>

text \<open>The state after an event, for a settled component.\<close>

definition after_event :: "event \<Rightarrow> theme_state \<Rightarrow> theme_state" where
  "after_event e s =
     (case e of
        ToggleTheme \<Rightarrow> \<lparr>isDark = \<not> isDark s, hasUserPref = True\<rparr>
      | PrefersDark b \<Rightarrow> if hasUserPref s then s else \<lparr>isDark = b, hasUserPref = False\<rparr>
      | Elapse n \<Rightarrow> s)"

lemma theme_state_eq:
  "s = \<lparr>isDark = d, hasUserPref = p\<rparr> \<longleftrightarrow> isDark s = d \<and> hasUserPref s = p"
  by (cases s) auto

lemma toggle_settled:
  assumes "settled a"
  shows "\<exists>a'. rerender toggleTheme a = Inr a' \<and> settled a' \<and>
           state a' = \<lparr>isDark = \<not> isDark (state a), hasUserPref = True\<rparr> \<and>
           prefers_dark (window a') = prefers_dark (window a) \<and>
           (wf_jar (cookies (window a)) \<longrightarrow> wf_jar (cookies (window a')))"
proof -
  have new: "fold reduce toggleTheme (state a) =
             \<lparr>isDark = \<not> isDark (state a), hasUserPref = True\<rparr>"
    by (simp add: toggleTheme_def theme_state_eq)
  have "\<exists>a'. rerender toggleTheme a = Inr a' \<and> settled a' \<and>
           state a' = fold reduce toggleTheme (state a) \<and>
           prefers_dark (window a') = prefers_dark (window a) \<and>
           (wf_jar (cookies (window a)) \<longrightarrow> wf_jar (cookies (window a')))"
    using assms by (intro settled_rerender) (simp_all add: settled_def new)
  then show ?thesis unfolding new .
qed

lemma prefers_dark_settled:
  assumes "settled a" and "b \<noteq> prefers_dark (window a)"
  shows "\<exists>a'. rerender (handle (listener a) b) (a\<lparr>window := (window a)\<lparr>prefers_dark := b\<rparr>\<rparr>) = Inr a' \<and>
           settled a' \<and>
           state a' = (if hasUserPref (state a) then state a
                       else \<lparr>isDark = b, hasUserPref = False\<rparr>) \<and>
           prefers_dark (window a') = b \<and>
           (wf_jar (cookies (window a)) \<longrightarrow> wf_jar (cookies (window a')))"
proof -
  let ?a = "a\<lparr>window := (window a)\<lparr>prefers_dark := b\<rparr>\<rparr>"
  let ?q = "handle (listener a) b"
  have captured: "listener a = hasUserPref (state a)"
    using assms(1) by (simp add: settled_def)
  have new: "fold reduce ?q (state ?a) =
             (if hasUserPref (state a) then state a else \<lparr>isDark = b, hasUserPref = False\<rparr>)"
    by (simp add: handle_def captured theme_state_eq)
  have "\<exists>a'. rerender ?q ?a = Inr a' \<and> settled a' \<and>
           state a' = fold reduce ?q (state ?a) \<and>
           prefers_dark (window a') = prefers_dark (window ?a) \<and>
           (wf_jar (cookies (window ?a)) \<longrightarrow> wf_jar (cookies (window a')))"
    using assms(1)
    by (intro settled_rerender)
       (simp_all add: settled_def theme_cookie_def local_theme_def handle_def)
  then show ?thesis unfolding new by simp
qed

lemma step_settled:
  assumes "settled a"
  shows "\<exists>a'. step e a = Inr a' \<and> settled a' \<and> state a' = after_event e (state a) \<and>
           prefers_dark (window a') =
             (case e of PrefersDark b \<Rightarrow> b | _ \<Rightarrow> prefers_dark (window a)) \<and>
           (wf_jar (cookies (window a)) \<longrightarrow> wf_jar (cookies (window a')))"
proof (cases e)
  case ToggleTheme
  with toggle_settled [OF assms] show ?thesis
    by (simp add: after_event_def)
next
  case (PrefersDark b)
  show ?thesis
  proof (cases "b = prefers_dark (window a)")
    case True
    have "hasUserPref (state a) \<or> isDark (state a) = b"
      using assms True by (simp add: settled_def)
    then have "after_event e (state a) = state a"
      by (auto simp: PrefersDark after_event_def theme_state_eq [THEN iffD2, symmetric])
    with True assms show ?thesis by (simp add: PrefersDark)
  next
    case False
    from prefers_dark_settled [OF assms False] obtain a'
      where "rerender (handle (listener a) b) (a\<lparr>window := (window a)\<lparr>prefers_dark := b\<rparr>\<rparr>) = Inr a'"
        and "settled a'"
        and "state a' = (if hasUserPref (state a) then state a
                         else \<lparr>isDark = b, hasUserPref = False\<rparr>)"
        and "prefers_dark (window a') = b"
        and "wf_jar (cookies (window a)) \<longrightarrow> wf_jar (cookies (window a'))"
      by blast
    with False show ?thesis
      by (simp add: PrefersDark after_event_def)
  qed
next
  case (Elapse n)
  with assms show ?thesis
    by (simp add: after_event_def settled_def theme_cookie_def local_theme_def)
qed

lemma run_settled:
  assumes "settled a"
  shows "\<exists>a'. run es a = Inr a' \<and> settled a' \<and> state a' = fold after_event es (state a) \<and>
           (wf_jar (cookies (window a)) \<longrightarrow> wf_jar (cookies (window a')))"
  using assms
proof (induction es arbitrary: a)
  case Nil
  then show ?case by simp
next
  case (Cons e es)
  from step_settled [OF Cons.prems, of e] obtain a1
    where a1: "step e a = Inr a1" "settled a1" "state a1 = after_event e (state a)"
      "wf_jar (cookies (window a)) \<longrightarrow> wf_jar (cookies (window a1))"
    by blast
  from Cons.IH [OF a1(2)] obtain a2
    where "run es a1 = Inr a2" "settled a2" "state a2 = fold after_event es (state a1)"
      "wf_jar (cookies (window a1)) \<longrightarrow> wf_jar (cookies (window a2))"
    by blast
  with a1 show ?case by simp
qed

lemma mount_returns:
  assumes "mount env = Inr a"
  obtains c where "getCookie (js ''theme'') env = Inr c"
proof (cases "getCookie (js ''theme'') env")
  case (Inl e)
  with assms mount_throws [of env e] show ?thesis by simp
next
  case (Inr c)
  then show ?thesis by (rule that)
qed

lemma mount_settled:
  assumes "mount env = Inr a"
  shows "settled a" and "prefers_dark (window a) = prefers_dark env"
    and "wf_jar (cookies env) \<Longrightarrow> wf_jar (cookies (window a))"
proof -
  from assms obtain c where "getCookie (js ''theme'') env = Inr c"
    by (rule mount_returns)
  from mount_resolve [OF this] assms
  show "settled a" and "prefers_dark (window a) = prefers_dark env"
    and "wf_jar (cookies env) \<Longrightarrow> wf_jar (cookies (window a))"
    by auto
qed

lemma reachable_settled:
  assumes "mount env = Inr a0" and "run es a0 = Inr a"
  shows "settled a" and "wf_jar (cookies env) \<Longrightarrow> wf_jar (cookies (window a))"
proof -
  from run_settled [OF mount_settled(1) [OF assms(1)], of es] assms(2)
  have "settled a" "wf_jar (cookies (window a0)) \<longrightarrow> wf_jar (cookies (window a))"
    by auto
  then show "settled a" and "wf_jar (cookies env) \<Longrightarrow> wf_jar (cookies (window a))"
    using mount_settled(3) [OF assms(1)] by auto
qed

lemma explicit_stays:
  "hasUserPref s \<Longrightarrow> hasUserPref (fold after_event es s)"
proof (induction es arbitrary: s)
  case Nil
  then show ?case by simp
next
  case (Cons e es)
  have "hasUserPref (after_event e s)"
    using Cons.prems by (cases e) (simp_all add: after_event_def)
  then show ?case using Cons.IH by simp
qed

subsection \<open>Particular page loads\<close>

lemma getCookie_empty: "cookies env = [] \<Longrightarrow> getCookie name env = Inr None"
  by (simp add: getCookie_def match_at_def js_def)

lemma resolve_simps:
  "resolve None None os = \<lparr>isDark = os, hasUserPref = False\<rparr>"
  "resolve (Some (js ''dark'')) l os = \<lparr>isDark = True, hasUserPref = True\<rparr>"
  "resolve (Some (js ''light'')) l os = \<lparr>isDark = False, hasUserPref = True\<rparr>"
  "resolve (Some (js ''system'')) l os = \<lparr>isDark = os, hasUserPref = False\<rparr>"
  "resolve None (Some (js ''dark'')) os = \<lparr>isDark = True, hasUserPref = True\<rparr>"
  "resolve None (Some (js ''light'')) os = \<lparr>isDark = False, hasUserPref = True\<rparr>"
  by (simp_all add: resolve_def logical_or_def theme_distinct)

lemma first_commit_returns:
  assumes "getCookie (js ''theme'') env = Inr c"
  shows "\<exists>a0 q a. first_commit env = Inr (a0, q) \<and> rerender q a0 = Inr a \<and>
           mount env = Inr a \<and>
           state a0 = \<lparr>isDark = False, hasUserPref = False\<rparr> \<and>
           applied a0 = [state a0] \<and>
           theme_cookie (window a0) = Some (js ''system'') \<and>
           local_theme (window a0) = None \<and>
           prefers_dark (window a0) = prefers_dark env \<and>
           state a = resolve c (localStorage env (js ''theme'')) (prefers_dark env)"
proof -
  from init_effect_resolve [OF assms, of useState_defaults] obtain env1 q
    where init: "init_effect env = Inr (env1, q)" and os: "prefers_dark env1 = prefers_dark env"
    by blast
  from mount_resolve [OF assms] obtain a
    where a: "mount env = Inr a"
      "state a = resolve c (localStorage env (js ''theme'')) (prefers_dark env)"
    by blast
  show ?thesis
    using a os first_commit_eq [OF init]
    by (simp add: mount_def useState_defaults_def persisted_def)
qed

text \<open>
  \<^verbatim>\<open>decodeURIComponent\<close> throws on the cookie \<^verbatim>\<open>theme=%\<close>; nothing catches the
  exception, and it takes the component down.
\<close>

lemma undecodable_cookie_throws:
  "mount \<lparr>cookies = [(js ''theme'', js ''%'')], localStorage = Map.empty,
          dark_class = False, prefers_dark = False, now = 0\<rparr> = Inl URIError"
proof -
  let ?env = "\<lparr>cookies = [(js ''theme'', js ''%'')], localStorage = Map.empty,
          dark_class = False, prefers_dark = False, now = 0\<rparr>"
  have "wf_jar (cookies ?env)" by (simp add: wf_jar_def js_def)
  from getCookie_jar [OF this theme_name(1)]
  have "getCookie (js ''theme'') ?env = Inl URIError"
    by (simp add: js_def)
  then show ?thesis by (rule mount_throws)
qed

section \<open>The claims\<close>

text \<open>
  C1. The local store is not consulted only when the cookie is absent: with the cookie
  \<^verbatim>\<open>theme=\<close>, whose value \<^verbatim>\<open>getCookie\<close> returns as the empty string, and \<^verbatim>\<open>dark\<close> in the
  local store, \<^verbatim>\<open>||\<close> takes the local value, initialization queues \<open>isDark = true\<close> and
  \<open>hasUserPref = true\<close>, and the page load ends with the explicit preference \<^verbatim>\<open>dark\<close>,
  although a cookie value and a local value are both present.
\<close>

theorem empty_cookie_counterexample:
  "getCookie (js ''theme'')
     \<lparr>cookies = [(js ''theme'', [])],
      localStorage = [js ''theme'' \<mapsto> js ''dark''],
      dark_class = False, prefers_dark = False, now = 0\<rparr> = Inr (Some []) \<and>
   map_sum id snd
     (init_effect
        \<lparr>cookies = [(js ''theme'', [])],
         localStorage = [js ''theme'' \<mapsto> js ''dark''],
         dark_class = False, prefers_dark = False, now = 0\<rparr>) =
     Inr [SetIsDark True, SetHasUserPref True] \<and>
   map_sum id state
     (mount \<lparr>cookies = [(js ''theme'', [])],
             localStorage = [js ''theme'' \<mapsto> js ''dark''],
             dark_class = False, prefers_dark = False, now = 0\<rparr>) =
     Inr \<lparr>isDark = True, hasUserPref = True\<rparr>"
proof -
  let ?env = "\<lparr>cookies = [(js ''theme'', [])],
               localStorage = [js ''theme'' \<mapsto> js ''dark''],
               dark_class = False, prefers_dark = False, now = 0\<rparr>"
  have "wf_jar (cookies ?env)" by (simp add: wf_jar_def js_def)
  from getCookie_jar [OF this theme_name(1)]
  have c: "getCookie (js ''theme'') ?env = Inr (Some [])"
    by simp
  have q: "map_sum id snd (init_effect ?env) = Inr [SetIsDark True, SetHasUserPref True]"
    by (simp add: init_effect_eq [OF c] logical_or_def Let_def)
  from mount_resolve [OF c] obtain a
    where "mount ?env = Inr a" "state a = resolve (Some []) (Some (js ''dark'')) False"
    by auto
  then have "map_sum id state (mount ?env) = Inr \<lparr>isDark = True, hasUserPref = True\<rparr>"
    by (simp add: resolve_def logical_or_def)
  with c q show ?thesis by simp
qed

text \<open>
  C1, as the code has it. Initialization takes the theme from the cookie, then the local
  store, then the operating system. Let the read of the cookie's theme field return \<open>c\<close>.
  The value \<open>v\<close> that initialization resolves is the local store's when the cookie is
  absent or its value is the empty string, and the cookie's otherwise; so a cookie value
  that is not empty wins over a local value. If \<open>v\<close> is \<^verbatim>\<open>light\<close> or \<^verbatim>\<open>dark\<close>, the
  setter calls queued make \<open>isDark\<close> true exactly for \<^verbatim>\<open>dark\<close> and \<open>hasUserPref\<close> true,
  whatever the state before, and the browser is untouched; otherwise they make \<open>isDark\<close>
  the operating system's preference and \<open>hasUserPref\<close> false, and \<^verbatim>\<open>system\<close> has been
  written to the cookie (and nothing else changed). A page load that completes ends in
  the state these calls give from the defaults.
\<close>

theorem init_priority_order:
  assumes "getCookie (js ''theme'') env = Inr c"
  shows "\<exists>env' q.
           init_effect env = Inr (env', q) \<and>
           (\<forall>a. mount env = Inr a \<longrightarrow> state a = fold reduce q useState_defaults) \<and>
           (let v = (if c = None \<or> c = Some [] then localStorage env (js ''theme'') else c)
            in if v = Some (js ''light'') \<or> v = Some (js ''dark'')
               then fold reduce q s = \<lparr>isDark = (v = Some (js ''dark'')), hasUserPref = True\<rparr> \<and>
                    env' = env
               else fold reduce q s = \<lparr>isDark = prefers_dark env, hasUserPref = False\<rparr> \<and>
                    theme_cookie env' = Some (js ''system'') \<and>
                    env' = env\<lparr>cookies := cookies env'\<rparr>)"
proof -
  define l where "l = localStorage env (js ''theme'')"
  define v where "v = (if c = None \<or> c = Some [] then l else c)"
  have v: "logical_or c l = v"
    by (simp add: logical_or_def v_def)
  from mount_resolve [OF assms] obtain a
    where a: "mount env = Inr a" "state a = resolve c l (prefers_dark env)"
    unfolding l_def by blast
  have init: "init_effect env =
     (if v = Some (js ''dark'') \<or> v = Some (js ''light'')
      then Inr (env, [SetIsDark (v = Some (js ''dark'')), SetHasUserPref True])
      else Inr (env\<lparr>cookies := AList.update (js ''theme'') (js ''system'') (cookies env)\<rparr>,
                [SetIsDark (prefers_dark env), SetHasUserPref False]))"
    unfolding init_effect_eq [OF assms] Let_def l_def [symmetric] v ..
  have res: "resolve c l (prefers_dark env) =
     (if v = Some (js ''dark'') \<or> v = Some (js ''light'')
      then \<lparr>isDark = (v = Some (js ''dark'')), hasUserPref = True\<rparr>
      else \<lparr>isDark = prefers_dark env, hasUserPref = False\<rparr>)"
    unfolding resolve_def Let_def v ..
  show ?thesis
  proof (cases "v = Some (js ''light'') \<or> v = Some (js ''dark'')")
    case True
    let ?q = "[SetIsDark (v = Some (js ''dark'')), SetHasUserPref True]"
    have "init_effect env = Inr (env, ?q)" using True init by auto
    moreover have "fold reduce ?q t = \<lparr>isDark = (v = Some (js ''dark'')), hasUserPref = True\<rparr>"
      for t by (simp add: theme_state_eq)
    moreover have "state a = \<lparr>isDark = (v = Some (js ''dark'')), hasUserPref = True\<rparr>"
      using True a(2) res by auto
    ultimately show ?thesis
      using True a(1) unfolding Let_def l_def [symmetric] v_def [symmetric] by auto
  next
    case False
    let ?q = "[SetIsDark (prefers_dark env), SetHasUserPref False]"
    let ?env' = "env\<lparr>cookies := AList.update (js ''theme'') (js ''system'') (cookies env)\<rparr>"
    have "init_effect env = Inr (?env', ?q)" using False init by auto
    moreover have "fold reduce ?q t = \<lparr>isDark = prefers_dark env, hasUserPref = False\<rparr>"
      for t by (simp add: theme_state_eq)
    moreover have "state a = \<lparr>isDark = prefers_dark env, hasUserPref = False\<rparr>"
      using False a(2) res by auto
    moreover have "theme_cookie ?env' = Some (js ''system'')"
      by (simp add: theme_cookie_def update_conv')
    ultimately show ?thesis
      using False a(1) unfolding Let_def l_def [symmetric] v_def [symmetric] by auto
  qed
qed

theorem init_priority_order_witness:
  "getCookie (js ''theme'')
     \<lparr>cookies = [(js ''theme'', js ''light'')],
      localStorage = [js ''theme'' \<mapsto> js ''dark''],
      dark_class = False, prefers_dark = True, now = 0\<rparr> = Inr (Some (js ''light'')) \<and>
   (\<exists>q a.
      init_effect
        \<lparr>cookies = [(js ''theme'', js ''light'')],
         localStorage = [js ''theme'' \<mapsto> js ''dark''],
         dark_class = False, prefers_dark = True, now = 0\<rparr> =
        Inr (\<lparr>cookies = [(js ''theme'', js ''light'')],
              localStorage = [js ''theme'' \<mapsto> js ''dark''],
              dark_class = False, prefers_dark = True, now = 0\<rparr>, q) \<and>
      fold reduce q \<lparr>isDark = True, hasUserPref = False\<rparr> =
        \<lparr>isDark = False, hasUserPref = True\<rparr> \<and>
      mount
        \<lparr>cookies = [(js ''theme'', js ''light'')],
         localStorage = [js ''theme'' \<mapsto> js ''dark''],
         dark_class = False, prefers_dark = True, now = 0\<rparr> = Inr a \<and>
      state a = \<lparr>isDark = False, hasUserPref = True\<rparr>) \<and>
   getCookie (js ''theme'')
     \<lparr>cookies = [(js ''theme'', [])],
      localStorage = [js ''theme'' \<mapsto> js ''light''],
      dark_class = False, prefers_dark = True, now = 0\<rparr> = Inr (Some []) \<and>
   (\<exists>q a.
      init_effect
        \<lparr>cookies = [(js ''theme'', [])],
         localStorage = [js ''theme'' \<mapsto> js ''light''],
         dark_class = False, prefers_dark = True, now = 0\<rparr> =
        Inr (\<lparr>cookies = [(js ''theme'', [])],
              localStorage = [js ''theme'' \<mapsto> js ''light''],
              dark_class = False, prefers_dark = True, now = 0\<rparr>, q) \<and>
      fold reduce q \<lparr>isDark = True, hasUserPref = False\<rparr> =
        \<lparr>isDark = False, hasUserPref = True\<rparr> \<and>
      mount
        \<lparr>cookies = [(js ''theme'', [])],
         localStorage = [js ''theme'' \<mapsto> js ''light''],
         dark_class = False, prefers_dark = True, now = 0\<rparr> = Inr a \<and>
      state a = \<lparr>isDark = False, hasUserPref = True\<rparr>)"
proof -
  let ?s = "\<lparr>isDark = True, hasUserPref = False\<rparr>"
  let ?r = "\<lparr>isDark = False, hasUserPref = True\<rparr>"
  let ?env = "\<lparr>cookies = [(js ''theme'', js ''light'')],
               localStorage = [js ''theme'' \<mapsto> js ''dark''],
               dark_class = False, prefers_dark = True, now = 0\<rparr>"
  have "wf_jar (cookies ?env)" by (simp add: wf_jar_def js_def)
  from getCookie_jar [OF this theme_name(1)]
  have c: "getCookie (js ''theme'') ?env = Inr (Some (js ''light''))"
    by (simp add: decode_theme ThemeCookie_def)
  from mount_resolve [OF c] obtain a where m: "mount ?env = Inr a" by blast
  from init_priority_order [OF c, of ?s] obtain q
    where 1: "init_effect ?env = Inr (?env, q)" "fold reduce q ?s = ?r"
    by (auto simp: Let_def theme_distinct)
  from init_priority_order [OF c, of useState_defaults] 1(1) m
  have "state a = ?r"
    by (auto simp: Let_def theme_distinct)
  with 1 m have first: "\<exists>q a. init_effect ?env = Inr (?env, q) \<and> fold reduce q ?s = ?r \<and>
      mount ?env = Inr a \<and> state a = ?r"
    by blast
  let ?env2 = "\<lparr>cookies = [(js ''theme'', [])],
               localStorage = [js ''theme'' \<mapsto> js ''light''],
               dark_class = False, prefers_dark = True, now = 0\<rparr>"
  have "wf_jar (cookies ?env2)" by (simp add: wf_jar_def js_def)
  from getCookie_jar [OF this theme_name(1)]
  have c2: "getCookie (js ''theme'') ?env2 = Inr (Some [])"
    by simp
  from mount_resolve [OF c2] obtain a2 where m2: "mount ?env2 = Inr a2" by blast
  from init_priority_order [OF c2, of ?s] obtain q2
    where 2: "init_effect ?env2 = Inr (?env2, q2)" "fold reduce q2 ?s = ?r"
    by (auto simp: Let_def theme_distinct)
  from init_priority_order [OF c2, of useState_defaults] 2(1) m2
  have "state a2 = ?r"
    by (auto simp: Let_def theme_distinct)
  with 2 m2 have second: "\<exists>q a. init_effect ?env2 = Inr (?env2, q) \<and> fold reduce q ?s = ?r \<and>
      mount ?env2 = Inr a \<and> state a = ?r"
    by blast
  from c first c2 second show ?thesis by blast
qed

text \<open>
  C2. The invariant of the specification, \<open>storage_invariant\<close>: \<open>hasUserPref\<close> is true
  exactly if the cookie's value is \<^verbatim>\<open>light\<close> or \<^verbatim>\<open>dark\<close> and the local store holds the
  same value; and when \<open>hasUserPref\<close> is false the cookie reads \<^verbatim>\<open>system\<close>, the local
  store holds no theme, and \<open>isDark\<close> equals the operating system's preference.
  \<open>storage_agrees\<close> is the invariant without its last part.

  The invariant does not hold after every completed apply step: on a page load with
  nothing stored while the operating system prefers dark, the first apply step runs with
  the default state, and after it \<open>hasUserPref\<close> and \<open>isDark\<close> are false while the
  operating system prefers dark.
\<close>

theorem first_apply_counterexample:
  "(case first_commit \<lparr>cookies = [], localStorage = Map.empty, dark_class = False,
                       prefers_dark = True, now = 0\<rparr> of
      Inl e \<Rightarrow> False
    | Inr (a, q) \<Rightarrow>
        applied a = [state a] \<and> \<not> hasUserPref (state a) \<and>
        isDark (state a) \<noteq> prefers_dark (window a) \<and>
        \<not> storage_invariant (state a) (window a))"
proof -
  let ?env = "\<lparr>cookies = [], localStorage = Map.empty, dark_class = False,
               prefers_dark = True, now = 0\<rparr>"
  have "getCookie (js ''theme'') ?env = Inr None" by (simp add: getCookie_empty)
  from first_commit_returns [OF this] obtain a0 q
    where "first_commit ?env = Inr (a0, q)"
      "state a0 = \<lparr>isDark = False, hasUserPref = False\<rparr>" "applied a0 = [state a0]"
      "prefers_dark (window a0) = True"
    by auto
  then show ?thesis by (simp add: storage_invariant_def)
qed

text \<open>
  C2, as the code has it. After every completed apply step the storage agrees with
  \<open>hasUserPref\<close> (\<open>storage_agrees\<close>). Once a page load is complete, and after any events
  that follow it, the last apply step ran with the current state and the whole invariant
  holds, \<open>isDark\<close> equal to the operating system's preference included. The one apply
  step left out is the first of a page load, which runs with the default state before
  the state that initialization resolved is rendered.
\<close>

theorem storage_invariant_after_load:
  "(\<exists>env'. apply_effect s env = Inr env' \<and> storage_agrees s env') \<and>
   (\<forall>a0. mount env = Inr a0 \<longrightarrow>
      (\<forall>es. \<exists>a. run es a0 = Inr a \<and> last (applied a) = state a \<and>
         storage_invariant (state a) (window a)))"
proof (intro conjI allI impI)
  show "\<exists>env'. apply_effect s env = Inr env' \<and> storage_agrees s env'"
    by (simp add: apply_effect_eq storage_agrees_after_apply)
next
  fix a0 es assume "mount env = Inr a0"
  then have "settled a0" by (rule mount_settled)
  from run_settled [OF this, of es] obtain a where "run es a0 = Inr a" "settled a"
    by blast
  then show "\<exists>a. run es a0 = Inr a \<and> last (applied a) = state a \<and>
               storage_invariant (state a) (window a)"
    by (auto simp: settled_invariant) (simp add: settled_def)
qed

theorem storage_invariant_after_load_witness:
  "\<exists>env' a0 a.
     apply_effect \<lparr>isDark = False, hasUserPref = False\<rparr>
       \<lparr>cookies = [], localStorage = [js ''theme'' \<mapsto> js ''dark''], dark_class = True,
        prefers_dark = True, now = 0\<rparr> = Inr env' \<and>
     theme_cookie env' = Some (js ''system'') \<and> local_theme env' = None \<and>
     mount \<lparr>cookies = [], localStorage = Map.empty, dark_class = False,
            prefers_dark = True, now = 0\<rparr> = Inr a0 \<and>
     run [PrefersDark False, ToggleTheme] a0 = Inr a \<and>
     state a = \<lparr>isDark = True, hasUserPref = True\<rparr> \<and>
     storage_invariant (state a) (window a) \<and>
     theme_cookie (window a) = Some (js ''dark'') \<and> local_theme (window a) = Some (js ''dark'')"
proof -
  let ?s = "\<lparr>isDark = False, hasUserPref = False\<rparr>"
  let ?e = "\<lparr>cookies = [], localStorage = [js ''theme'' \<mapsto> js ''dark''], dark_class = True,
        prefers_dark = True, now = 0\<rparr>"
  let ?env = "\<lparr>cookies = [], localStorage = Map.empty, dark_class = False,
               prefers_dark = True, now = 0\<rparr>"
  from storage_invariant_after_load [of ?s ?e, THEN conjunct1] obtain env'
    where e: "apply_effect ?s ?e = Inr env'" "theme_cookie env' = Some (js ''system'')"
      "local_theme env' = None"
    by (auto simp: storage_agrees_def)
  have "getCookie (js ''theme'') ?env = Inr None" by (simp add: getCookie_empty)
  from mount_resolve [OF this] obtain a0
    where a0: "mount ?env = Inr a0" "state a0 = \<lparr>isDark = True, hasUserPref = False\<rparr>"
    by (auto simp: resolve_simps)
  from storage_invariant_after_load [of ?s ?env, THEN conjunct2, rule_format, OF a0(1),
      of "[PrefersDark False, ToggleTheme]"]
  obtain a where a: "run [PrefersDark False, ToggleTheme] a0 = Inr a"
    "storage_invariant (state a) (window a)"
    by blast
  have "settled a0" using a0(1) by (rule mount_settled)
  from run_settled [OF this, of "[PrefersDark False, ToggleTheme]"] a(1) a0(2)
  have s: "state a = \<lparr>isDark = True, hasUserPref = True\<rparr>" and "settled a"
    by (auto simp: after_event_def)
  then have "theme_cookie (window a) = Some (js ''dark'')"
    "local_theme (window a) = Some (js ''dark'')"
    by (simp_all add: settled_def persisted_def)
  with e a0(1) a s show ?thesis by blast
qed

text \<open>
  C3. The apply step sets the document's dark-mode flag to \<open>isDark\<close>. If \<open>hasUserPref\<close>
  is true it writes \<^verbatim>\<open>dark\<close> or \<^verbatim>\<open>light\<close>, according to \<open>isDark\<close>, to the local store
  and to the cookie; otherwise it writes \<^verbatim>\<open>system\<close> to the cookie and removes the theme
  from the local store. It never fails. It runs in the first commit of a page load, after
  the initialization effect and on the browser that effect left, and after every render
  that changed the state, with the new state.
\<close>

theorem apply_step:
  "(\<exists>env'. apply_effect s env = Inr env' \<and> dark_class env' = isDark s \<and>
      (if hasUserPref s
       then local_theme env' = Some (if isDark s then js ''dark'' else js ''light'') \<and>
            theme_cookie env' = local_theme env'
       else theme_cookie env' = Some (js ''system'') \<and> local_theme env' = None)) \<and>
   (\<forall>a0 q. first_commit env = Inr (a0, q) \<longrightarrow>
      applied a0 = [state a0] \<and>
      (\<exists>env1. init_effect env = Inr (env1, q) \<and>
         apply_effect (state a0) env1 = Inr (window a0))) \<and>
   (\<forall>a'. rerender q a = Inr a' \<longrightarrow> state a' \<noteq> state a \<longrightarrow>
      applied a' = applied a @ [state a'] \<and>
      apply_effect (state a') (window a) = Inr (window a'))"
proof (intro conjI allI impI)
  show "\<exists>env'. apply_effect s env = Inr env' \<and> dark_class env' = isDark s \<and>
      (if hasUserPref s
       then local_theme env' = Some (if isDark s then js ''dark'' else js ''light'') \<and>
            theme_cookie env' = local_theme env'
       else theme_cookie env' = Some (js ''system'') \<and> local_theme env' = None)"
    by (simp add: apply_effect_eq persisted_def)
next
  fix a0 q assume "first_commit env = Inr (a0, q)"
  then show "applied a0 = [state a0]"
    and "\<exists>env1. init_effect env = Inr (env1, q) \<and>
           apply_effect (state a0) env1 = Inr (window a0)"
    by (auto simp: first_commit_def apply_effect_eq Let_def split: sum.splits)
next
  fix a' assume "rerender q a = Inr a'" and "state a' \<noteq> state a"
  then show "applied a' = applied a @ [state a']"
    and "apply_effect (state a') (window a) = Inr (window a')"
    by (auto simp: rerender_eq apply_effect_eq Let_def split: if_splits)
qed

theorem apply_step_witness:
  "\<exists>env' a0 q a'.
     apply_effect \<lparr>isDark = True, hasUserPref = True\<rparr>
       \<lparr>cookies = [], localStorage = Map.empty, dark_class = False,
        prefers_dark = True, now = 0\<rparr> = Inr env' \<and>
     dark_class env' \<and> local_theme env' = Some (js ''dark'') \<and>
     theme_cookie env' = Some (js ''dark'') \<and>
     first_commit
       \<lparr>cookies = [], localStorage = Map.empty, dark_class = False,
        prefers_dark = True, now = 0\<rparr> = Inr (a0, q) \<and>
     applied a0 = [state a0] \<and>
     rerender q a0 = Inr a' \<and> state a' \<noteq> state a0 \<and>
     applied a' = applied a0 @ [state a'] \<and>
     apply_effect (state a') (window a0) = Inr (window a')"
proof -
  let ?env = "\<lparr>cookies = [], localStorage = Map.empty, dark_class = False,
               prefers_dark = True, now = 0\<rparr>"
  let ?s = "\<lparr>isDark = True, hasUserPref = True\<rparr>"
  have c: "getCookie (js ''theme'') ?env = Inr None" by (simp add: getCookie_empty)
  from first_commit_returns [OF c] obtain a0 q a'
    where f: "first_commit ?env = Inr (a0, q)" and r: "rerender q a0 = Inr a'"
      and s0: "state a0 = \<lparr>isDark = False, hasUserPref = False\<rparr>"
      and s: "state a' = resolve None (localStorage ?env (js ''theme'')) (prefers_dark ?env)"
    by blast
  have changed: "state a' \<noteq> state a0"
    unfolding s s0 by (simp add: resolve_simps)
  note here = apply_step [of ?s ?env q a0]
  from here [THEN conjunct1] obtain env'
    where "apply_effect ?s ?env = Inr env'" "dark_class env'"
      "local_theme env' = Some (js ''dark'')" "theme_cookie env' = Some (js ''dark'')"
    by auto
  moreover from here [THEN conjunct2, THEN conjunct1, rule_format, OF f]
  have "applied a0 = [state a0]" by simp
  moreover from here [THEN conjunct2, THEN conjunct2, rule_format, OF r changed]
  have "applied a' = applied a0 @ [state a']"
    "apply_effect (state a') (window a0) = Inr (window a')"
    by simp_all
  ultimately show ?thesis using f r changed by blast
qed

text \<open>
  C4. A cookie value other than \<^verbatim>\<open>light\<close>, \<^verbatim>\<open>dark\<close> and \<^verbatim>\<open>system\<close> is not treated
  as an absent cookie: with the cookie \<^verbatim>\<open>theme=blue\<close> and \<^verbatim>\<open>dark\<close> in the local store,
  the page load ends adaptive, following the operating system (here light), while the
  same load without the cookie falls through to the local store and ends with the
  explicit preference \<^verbatim>\<open>dark\<close>.
\<close>

theorem malformed_cookie_counterexample:
  "map_sum id state
     (mount \<lparr>cookies = [(js ''theme'', js ''blue'')],
             localStorage = [js ''theme'' \<mapsto> js ''dark''],
             dark_class = False, prefers_dark = False, now = 0\<rparr>) =
     Inr \<lparr>isDark = False, hasUserPref = False\<rparr> \<and>
   map_sum id state
     (mount \<lparr>cookies = [],
             localStorage = [js ''theme'' \<mapsto> js ''dark''],
             dark_class = False, prefers_dark = False, now = 0\<rparr>) =
     Inr \<lparr>isDark = True, hasUserPref = True\<rparr>"
proof -
  let ?bad = "\<lparr>cookies = [(js ''theme'', js ''blue'')],
             localStorage = [js ''theme'' \<mapsto> js ''dark''],
             dark_class = False, prefers_dark = False, now = 0\<rparr>"
  let ?none = "\<lparr>cookies = [],
             localStorage = [js ''theme'' \<mapsto> js ''dark''],
             dark_class = False, prefers_dark = False, now = 0\<rparr>"
  have "wf_jar (cookies ?bad)" by (simp add: wf_jar_def js_def)
  from getCookie_jar [OF this theme_name(1)]
  have "getCookie (js ''theme'') ?bad = Inr (Some (js ''blue''))"
    by (simp add: js_def emit_def)
  from mount_resolve [OF this] obtain a
    where "mount ?bad = Inr a"
      "state a = resolve (Some (js ''blue'')) (Some (js ''dark'')) False"
    by auto
  then have bad: "map_sum id state (mount ?bad) = Inr \<lparr>isDark = False, hasUserPref = False\<rparr>"
    by (simp add: resolve_def logical_or_def js_def)
  have "getCookie (js ''theme'') ?none = Inr None" by (simp add: getCookie_empty)
  from mount_resolve [OF this] obtain a'
    where "mount ?none = Inr a'" "state a' = resolve None (Some (js ''dark'')) False"
    by auto
  then have "map_sum id state (mount ?none) = Inr \<lparr>isDark = True, hasUserPref = True\<rparr>"
    by (simp add: resolve_simps)
  with bad show ?thesis by simp
qed

text \<open>
  C4, as the code has it. Let the read of the cookie's theme field return \<open>c\<close>, and let
  the page load complete. Then
  \<^item> a cookie value that is not empty and is none of \<^verbatim>\<open>light\<close>, \<^verbatim>\<open>dark\<close>,
    \<^verbatim>\<open>system\<close> is handled as \<^verbatim>\<open>system\<close> is: the load ends with \<open>hasUserPref\<close> false
    and \<open>isDark\<close> the operating system's preference, whatever the local store holds;
  \<^item> an empty cookie value is handled as an absent cookie: the local store decides;
  \<^item> when the cookie is absent or empty, a local value that is none of \<^verbatim>\<open>light\<close>,
    \<^verbatim>\<open>dark\<close>, \<^verbatim>\<open>system\<close> is handled as an absent one: the load ends with
    \<open>hasUserPref\<close> false and \<open>isDark\<close> the operating system's preference.
  Whether the page load completes is not part of the statement. It does not on a cookie
  text that is not a valid percent-encoding (\<open>undecodable_cookie_throws\<close> shows one), and
  the component calls the local store without a guard, while the store of this model
  never refuses a call.
\<close>

theorem malformed_value_handling:
  assumes "getCookie (js ''theme'') env = Inr c" and "mount env = Inr a"
  shows "(\<forall>g. c = Some g \<and> g \<noteq> [] \<and> g \<notin> ThemeCookie \<longrightarrow>
            state a = \<lparr>isDark = prefers_dark env, hasUserPref = False\<rparr>) \<and>
         (c = Some [] \<longrightarrow>
            (let l = localStorage env (js ''theme'')
             in state a =
                  (if l = Some (js ''dark'') \<or> l = Some (js ''light'')
                   then \<lparr>isDark = (l = Some (js ''dark'')), hasUserPref = True\<rparr>
                   else \<lparr>isDark = prefers_dark env, hasUserPref = False\<rparr>))) \<and>
         (\<forall>l. (c = None \<or> c = Some []) \<and> localStorage env (js ''theme'') = Some l \<and>
              l \<notin> ThemeCookie \<longrightarrow>
            state a = \<lparr>isDark = prefers_dark env, hasUserPref = False\<rparr>)"
proof -
  from mount_resolve [OF assms(1)] assms(2)
  have a: "state a = resolve c (localStorage env (js ''theme'')) (prefers_dark env)"
    by auto
  have "state a = \<lparr>isDark = prefers_dark env, hasUserPref = False\<rparr>"
    if "c = Some g" "g \<noteq> []" "g \<notin> ThemeCookie" for g
    using that a by (simp add: resolve_def logical_or_def ThemeCookie_def)
  moreover have "let l = localStorage env (js ''theme'')
               in state a =
                    (if l = Some (js ''dark'') \<or> l = Some (js ''light'')
                     then \<lparr>isDark = (l = Some (js ''dark'')), hasUserPref = True\<rparr>
                     else \<lparr>isDark = prefers_dark env, hasUserPref = False\<rparr>)"
    if "c = Some []"
    using that a by (simp add: resolve_def logical_or_def Let_def)
  moreover have "state a = \<lparr>isDark = prefers_dark env, hasUserPref = False\<rparr>"
    if "c = None \<or> c = Some []" "localStorage env (js ''theme'') = Some l" "l \<notin> ThemeCookie"
    for l
    using that a by (auto simp: resolve_def logical_or_def ThemeCookie_def)
  ultimately show ?thesis by blast
qed

theorem malformed_value_handling_witness:
  "getCookie (js ''theme'')
     \<lparr>cookies = [(js ''theme'', js ''blue'')],
      localStorage = [js ''theme'' \<mapsto> js ''dark''],
      dark_class = False, prefers_dark = True, now = 0\<rparr> = Inr (Some (js ''blue'')) \<and>
   js ''blue'' \<noteq> [] \<and> js ''blue'' \<notin> ThemeCookie \<and>
   (\<exists>a. mount \<lparr>cookies = [(js ''theme'', js ''blue'')],
                 localStorage = [js ''theme'' \<mapsto> js ''dark''],
                 dark_class = False, prefers_dark = True, now = 0\<rparr> = Inr a \<and>
        state a = \<lparr>isDark = True, hasUserPref = False\<rparr>)"
proof -
  let ?env = "\<lparr>cookies = [(js ''theme'', js ''blue'')],
               localStorage = [js ''theme'' \<mapsto> js ''dark''],
               dark_class = False, prefers_dark = True, now = 0\<rparr>"
  have "wf_jar (cookies ?env)" by (simp add: wf_jar_def js_def)
  from getCookie_jar [OF this theme_name(1)]
  have c: "getCookie (js ''theme'') ?env = Inr (Some (js ''blue''))"
    by (simp add: js_def emit_def)
  have g: "js ''blue'' \<noteq> []" "js ''blue'' \<notin> ThemeCookie"
    by (simp_all add: ThemeCookie_def js_def)
  from mount_resolve [OF c] obtain a where m: "mount ?env = Inr a" by blast
  from malformed_value_handling [OF c m, THEN conjunct1, rule_format, of "js ''blue''"] g
  have "state a = \<lparr>isDark = True, hasUserPref = False\<rparr>" by simp
  with c g m show ?thesis by blast
qed

text \<open>
  C5. \<open>toggleTheme\<close> can be called on any component, with no precondition. It sets
  \<open>hasUserPref\<close> to true and flips \<open>isDark\<close>, whatever its value, and the apply effect
  runs with the new state. After two consecutive calls \<open>isDark\<close> has its original value
  again and \<open>hasUserPref\<close> is true after each of them; in particular two calls from
  \<open>Explicit(isDark = false)\<close> lead back to \<open>Explicit(isDark = false)\<close>.
\<close>

theorem toggleTheme_flips:
  "\<exists>a1 a2.
     step ToggleTheme a = Inr a1 \<and> step ToggleTheme a1 = Inr a2 \<and>
     state a1 = \<lparr>isDark = \<not> isDark (state a), hasUserPref = True\<rparr> \<and>
     state a2 = \<lparr>isDark = isDark (state a), hasUserPref = True\<rparr> \<and>
     applied a1 = applied a @ [state a1] \<and> applied a2 = applied a1 @ [state a2]"
proof -
  have flip: "fold reduce toggleTheme s = \<lparr>isDark = \<not> isDark s, hasUserPref = True\<rparr>" for s
    by (simp add: toggleTheme_def theme_state_eq)
  have changed: "fold reduce toggleTheme s \<noteq> s" for s
    unfolding flip by (cases s) auto
  show ?thesis
    by (simp add: rerender_eq Let_def changed) (simp add: flip)
qed

text \<open>
  C6. Take any component reached from a page load by any events, and call
  \<open>toggleTheme\<close>. From then on, whatever events follow, \<open>hasUserPref\<close> is true (there is
  no way back to the adaptive mode), and a change of the operating system's preference,
  to either value, leaves the state, and so \<open>isDark\<close>, as it is.
\<close>

theorem explicit_freeze:
  assumes "mount env = Inr a0" and "run pre a0 = Inr a"
  shows "\<exists>a1. step ToggleTheme a = Inr a1 \<and>
           (\<forall>es. \<exists>a2. run es a1 = Inr a2 \<and> hasUserPref (state a2) \<and>
              (\<forall>b. \<exists>a3. step (PrefersDark b) a2 = Inr a3 \<and> state a3 = state a2))"
proof -
  have "settled a" using assms by (rule reachable_settled)
  from step_settled [OF this, of ToggleTheme] obtain a1
    where a1: "step ToggleTheme a = Inr a1" "settled a1"
      "state a1 = after_event ToggleTheme (state a)"
    by blast
  then have explicit: "hasUserPref (state a1)" by (simp add: after_event_def)
  have "\<exists>a2. run es a1 = Inr a2 \<and> hasUserPref (state a2) \<and>
              (\<forall>b. \<exists>a3. step (PrefersDark b) a2 = Inr a3 \<and> state a3 = state a2)" for es
  proof -
    from run_settled [OF a1(2), of es] obtain a2
      where a2: "run es a1 = Inr a2" "settled a2" "state a2 = fold after_event es (state a1)"
      by blast
    have frozen: "hasUserPref (state a2)"
      using explicit a2(3) by (simp add: explicit_stays)
    have "\<exists>a3. step (PrefersDark b) a2 = Inr a3 \<and> state a3 = state a2" for b
      using step_settled [OF a2(2), of "PrefersDark b"] frozen
      by (auto simp: after_event_def)
    with a2(1) frozen show ?thesis by blast
  qed
  with a1(1) show ?thesis by blast
qed

theorem explicit_freeze_witness:
  "\<exists>a0 a1 a2 a3.
     mount \<lparr>cookies = [], localStorage = Map.empty, dark_class = False,
            prefers_dark = False, now = 0\<rparr> = Inr a0 \<and>
     run [] a0 = Inr a0 \<and>
     step ToggleTheme a0 = Inr a1 \<and>
     run [PrefersDark True, ToggleTheme] a1 = Inr a2 \<and> hasUserPref (state a2) \<and>
     step (PrefersDark False) a2 = Inr a3 \<and> state a3 = state a2"
proof -
  let ?env = "\<lparr>cookies = [], localStorage = Map.empty, dark_class = False,
               prefers_dark = False, now = 0\<rparr>"
  have "getCookie (js ''theme'') ?env = Inr None" by (simp add: getCookie_empty)
  from mount_resolve [OF this] obtain a0 where a0: "mount ?env = Inr a0"
    by blast
  have r: "run [] a0 = Inr a0" by simp
  from explicit_freeze [OF a0 r] obtain a1
    where a1: "step ToggleTheme a0 = Inr a1"
      and after: "\<And>es. \<exists>a2. run es a1 = Inr a2 \<and> hasUserPref (state a2) \<and>
              (\<forall>b. \<exists>a3. step (PrefersDark b) a2 = Inr a3 \<and> state a3 = state a2)"
    by blast
  from after [of "[PrefersDark True, ToggleTheme]"] obtain a2
    where a2: "run [PrefersDark True, ToggleTheme] a1 = Inr a2" "hasUserPref (state a2)"
      and os: "\<And>b. \<exists>a3. step (PrefersDark b) a2 = Inr a3 \<and> state a3 = state a2"
    by blast
  from os [of False] obtain a3
    where "step (PrefersDark False) a2 = Inr a3" "state a3 = state a2"
    by blast
  with a0 r a1 a2 show ?thesis by blast
qed

text \<open>
  C7. While \<open>hasUserPref\<close> is false, a change of the operating system's preference to
  \<open>b\<close> sets \<open>isDark\<close> to \<open>b\<close> and keeps \<open>hasUserPref\<close> false; the apply effect runs
  with the new state on the browser that now reports \<open>b\<close>; it sets the dark-mode flag to
  \<open>b\<close>, writes \<^verbatim>\<open>system\<close> (not \<^verbatim>\<open>dark\<close> or \<^verbatim>\<open>light\<close>) to the cookie and leaves the
  local store without a theme. The component is any one reached from a page load.
\<close>

theorem adaptive_tracking:
  assumes "mount env = Inr a0" and "run es a0 = Inr a"
    and "\<not> hasUserPref (state a)" and "b \<noteq> prefers_dark (window a)"
  shows "\<exists>a'. step (PrefersDark b) a = Inr a' \<and>
           state a' = \<lparr>isDark = b, hasUserPref = False\<rparr> \<and>
           prefers_dark (window a') = b \<and>
           apply_effect (state a') ((window a)\<lparr>prefers_dark := b\<rparr>) = Inr (window a') \<and>
           applied a' = applied a @ [state a'] \<and>
           dark_class (window a') = b \<and>
           theme_cookie (window a') = Some (js ''system'') \<and>
           local_theme (window a') = None"
proof -
  have s: "settled a" using assms(1,2) by (rule reachable_settled)
  then have captured: "listener a = False" and os: "isDark (state a) = prefers_dark (window a)"
    using assms(3) by (simp_all add: settled_def)
  have new: "fold reduce (handle False b) (state a) = \<lparr>isDark = b, hasUserPref = False\<rparr>"
    using assms(3) by (simp add: handle_def theme_state_eq)
  have changed: "\<lparr>isDark = b, hasUserPref = False\<rparr> \<noteq> state a"
  proof
    assume same: "\<lparr>isDark = b, hasUserPref = False\<rparr> = state a"
    have "isDark (state a) = b" by (simp add: same [symmetric])
    with assms(4) os show False by simp
  qed
  let ?w = "(window a)\<lparr>prefers_dark := b\<rparr>"
  let ?s = "\<lparr>isDark = b, hasUserPref = False\<rparr>"
  let ?a' = "a\<lparr>state := ?s, window := after_apply ?s ?w, listener := listener a,
               renders := renders a @ [?s], applied := applied a @ [?s]\<rparr>"
  have "rerender (handle False b) (a\<lparr>window := ?w\<rparr>) = Inr ?a'"
    using changed assms(3) by (simp add: rerender_eq Let_def new)
  then have st: "step (PrefersDark b) a = Inr ?a'"
    using assms(4) captured by simp
  show ?thesis
    unfolding st by (simp add: apply_effect_eq persisted_def)
qed

theorem adaptive_tracking_witness:
  "\<exists>a0 a'.
     mount \<lparr>cookies = [], localStorage = Map.empty, dark_class = False,
            prefers_dark = False, now = 0\<rparr> = Inr a0 \<and>
     run [] a0 = Inr a0 \<and> \<not> hasUserPref (state a0) \<and> True \<noteq> prefers_dark (window a0) \<and>
     step (PrefersDark True) a0 = Inr a' \<and>
     state a' = \<lparr>isDark = True, hasUserPref = False\<rparr> \<and>
     theme_cookie (window a') = Some (js ''system'') \<and>
     local_theme (window a') = None \<and> dark_class (window a')"
proof -
  let ?env = "\<lparr>cookies = [], localStorage = Map.empty, dark_class = False,
               prefers_dark = False, now = 0\<rparr>"
  have "getCookie (js ''theme'') ?env = Inr None" by (simp add: getCookie_empty)
  from mount_resolve [OF this] obtain a0
    where a0: "mount ?env = Inr a0" "state a0 = \<lparr>isDark = False, hasUserPref = False\<rparr>"
      "prefers_dark (window a0) = False"
    by (auto simp: resolve_simps)
  have r: "run [] a0 = Inr a0" by simp
  have h: "\<not> hasUserPref (state a0)" and c: "True \<noteq> prefers_dark (window a0)"
    using a0 by simp_all
  from adaptive_tracking [OF a0(1) r h c] obtain a'
    where a': "step (PrefersDark True) a0 = Inr a'"
      "state a' = \<lparr>isDark = True, hasUserPref = False\<rparr>"
      "dark_class (window a') = True"
      "theme_cookie (window a') = Some (js ''system'')" "local_theme (window a') = None"
    by blast
  with a0(1) r h c show ?thesis by auto
qed

text \<open>
  C8. Take a page load and any events after it that leave an explicit preference
  (\<open>hasUserPref\<close> true), such as a load without stored state followed by one
  \<open>toggleTheme\<close>. The apply effect has then written the explicit value to the cookie and to
  the local store, and loading the page again on that storage restores the same state,
  with \<open>hasUserPref\<close> true, whatever the operating system reports at that time.
\<close>

theorem persist_then_reload:
  assumes "wf_jar (cookies env)" and "mount env = Inr a0" and "run es a0 = Inr a"
    and "hasUserPref (state a)"
  shows "theme_cookie (window a) = Some (if isDark (state a) then js ''dark'' else js ''light'') \<and>
         local_theme (window a) = theme_cookie (window a) \<and>
         (\<forall>os t. \<exists>a'. mount (reload os t (window a)) = Inr a' \<and> state a' = state a)"
proof -
  have s: "settled a" using assms(2,3) by (rule reachable_settled)
  have wf: "wf_jar (cookies (window a))" using assms(2,3,1) by (rule reachable_settled)
  let ?v = "if isDark (state a) then js ''dark'' else js ''light''"
  have v: "persisted (state a) = ?v" using assms(4) by (simp add: persisted_def)
  have stored: "theme_cookie (window a) = Some ?v" "local_theme (window a) = Some ?v"
    using s assms(4) v by (simp_all add: settled_def)
  have "\<exists>a'. mount (reload os t (window a)) = Inr a' \<and> state a' = state a" for os t
  proof -
    let ?env = "reload os t (window a)"
    have "wf_jar (cookies ?env)" using wf by (simp add: reload_def)
    moreover have "theme_cookie ?env = Some ?v"
      using stored(1) by (simp add: reload_def theme_cookie_def)
    ultimately have "getCookie (js ''theme'') ?env = Inr (Some ?v)"
      by (rule getCookie_theme_cookie) (simp add: ThemeCookie_def)
    from mount_resolve [OF this] obtain a'
      where "mount ?env = Inr a'"
        and "state a' = resolve (Some ?v) (localStorage ?env (js ''theme'')) (prefers_dark ?env)"
      by blast
    moreover have "resolve (Some ?v) l b = state a" for l b
      using assms(4) by (simp add: resolve_simps theme_state_eq [THEN iffD2, symmetric])
    ultimately show ?thesis by auto
  qed
  with stored show ?thesis by simp
qed

theorem persist_then_reload_witness:
  "wf_jar [] \<and>
   (\<exists>a0 a a'.
      mount \<lparr>cookies = [], localStorage = Map.empty, dark_class = False,
             prefers_dark = False, now = 0\<rparr> = Inr a0 \<and>
      state a0 = \<lparr>isDark = False, hasUserPref = False\<rparr> \<and>
      run [ToggleTheme] a0 = Inr a \<and>
      state a = \<lparr>isDark = True, hasUserPref = True\<rparr> \<and>
      theme_cookie (window a) = Some (js ''dark'') \<and>
      local_theme (window a) = Some (js ''dark'') \<and>
      mount (reload False 60000 (window a)) = Inr a' \<and>
      state a' = \<lparr>isDark = True, hasUserPref = True\<rparr>)"
proof -
  let ?env = "\<lparr>cookies = [], localStorage = Map.empty, dark_class = False,
               prefers_dark = False, now = 0\<rparr>"
  have wf: "wf_jar (cookies ?env)" by (simp add: wf_jar_def)
  have "getCookie (js ''theme'') ?env = Inr None" by (simp add: getCookie_empty)
  from mount_resolve [OF this] obtain a0
    where a0: "mount ?env = Inr a0" "settled a0"
      "state a0 = \<lparr>isDark = False, hasUserPref = False\<rparr>"
    by (auto simp: resolve_simps)
  from run_settled [OF a0(2), of "[ToggleTheme]"] obtain a
    where a: "run [ToggleTheme] a0 = Inr a" "state a = \<lparr>isDark = True, hasUserPref = True\<rparr>"
    by (auto simp: a0(3) after_event_def)
  have h: "hasUserPref (state a)" by (simp add: a(2))
  from persist_then_reload [OF wf a0(1) a(1) h] obtain a'
    where "theme_cookie (window a) = Some (js ''dark'')"
      and "local_theme (window a) = Some (js ''dark'')"
      and "mount (reload False 60000 (window a)) = Inr a'"
      and "state a' = \<lparr>isDark = True, hasUserPref = True\<rparr>"
    by (auto simp: a(2))
  with a0(1,3) a show ?thesis by (auto simp: wf_jar_def)
qed

text \<open>
  C9. For every theme value \<open>v\<close> (\<^verbatim>\<open>light\<close>, \<^verbatim>\<open>dark\<close>, \<^verbatim>\<open>system\<close>), the text that
  \<^verbatim>\<open>setCookie('theme', v)\<close> assigns to \<^verbatim>\<open>document.cookie\<close> is the name \<^verbatim>\<open>theme\<close>, the
  percent-encoded value, an expiry 365 days after the current time, \<^verbatim>\<open>path=/\<close> and
  \<^verbatim>\<open>SameSite=Lax\<close>. On the cookie string the browser shows after the assignment, the
  regular expression of \<^verbatim>\<open>getCookie('theme')\<close> finds the encoded value, which decodes
  to \<open>v\<close>, so \<^verbatim>\<open>getCookie('theme')\<close> returns exactly \<open>v\<close>. The jar before the call is
  any jar a browser can hold (\<open>wf_jar\<close>), with or without a theme cookie.
\<close>

theorem theme_cookie_roundtrip:
  assumes "v \<in> ThemeCookie" and "wf_jar (cookies env)"
  shows "\<exists>enc env'.
           encodeURIComponent v = Inr enc \<and>
           cookie_text (js ''theme'') v 365 (now env) =
             Inr (js ''theme'' @ js ''='' @ enc @ js ''; expires='' @
                  toUTCString (TimeClip (now env + 365 * 24 * 60 * 60 * 1000)) @
                  js ''; path=/; SameSite=Lax'') \<and>
           setCookie (js ''theme'') v 365 env = Inr env' \<and>
           regex_match (js ''theme'') True (read_document_cookie (cookies env')) = Some enc \<and>
           decodeURIComponent enc = Inr v \<and>
           getCookie (js ''theme'') env' = Inr (Some v)"
proof -
  let ?env' = "env\<lparr>cookies := AList.update (js ''theme'') v (cookies env)\<rparr>"
  have wf: "wf_jar (cookies ?env')"
    using assms by (simp add: wf_jar_update theme_name theme_value)
  have found: "map_of (cookies ?env') (js ''theme'') = Some v"
    by (simp add: update_conv')
  have "regex_match (js ''theme'') True (read_document_cookie (cookies ?env')) = Some v"
    using regex_match_jar [OF wf theme_name(1)] found by simp
  moreover have "getCookie (js ''theme'') ?env' = Inr (Some v)"
    using getCookie_jar [OF wf theme_name(1)] found assms(1) by (simp add: decode_theme)
  moreover have "setCookie (js ''theme'') v 365 env = Inr ?env'"
    using assms(1) by (rule setCookie_theme)
  moreover have "cookie_text (js ''theme'') v 365 (now env) =
             Inr (js ''theme'' @ js ''='' @ v @ js ''; expires='' @
                  toUTCString (TimeClip (now env + 365 * 24 * 60 * 60 * 1000)) @
                  js ''; path=/; SameSite=Lax'')"
    using assms(1) by (rule cookie_text_theme)
  ultimately show ?thesis
    using assms(1) by (simp add: encode_theme decode_theme)
qed

theorem theme_cookie_roundtrip_witness:
  "js ''dark'' \<in> ThemeCookie \<and>
   wf_jar [(js ''lang'', js ''en''), (js ''theme'', js ''system'')] \<and>
   (let env = \<lparr>cookies = [(js ''lang'', js ''en''), (js ''theme'', js ''system'')],
               localStorage = Map.empty, dark_class = False, prefers_dark = False,
               now = 1793612040000\<rparr>;
        env' = env\<lparr>cookies := [(js ''lang'', js ''en''), (js ''theme'', js ''dark'')]\<rparr>
    in encodeURIComponent (js ''dark'') = Inr (js ''dark'') \<and>
       cookie_text (js ''theme'') (js ''dark'') 365 (now env) =
         Inr (js ''theme=dark; expires=Tue, 02 Nov 2027 09:34:00 GMT; path=/; SameSite=Lax'') \<and>
       setCookie (js ''theme'') (js ''dark'') 365 env = Inr env' \<and>
       read_document_cookie (cookies env') = js ''lang=en; theme=dark'' \<and>
       getCookie (js ''theme'') env' = Inr (Some (js ''dark'')))"
proof -
  let ?env = "\<lparr>cookies = [(js ''lang'', js ''en''), (js ''theme'', js ''system'')],
               localStorage = Map.empty, dark_class = False, prefers_dark = False,
               now = 1793612040000\<rparr>"
  have v: "js ''dark'' \<in> ThemeCookie" by (simp add: ThemeCookie_def)
  have wf: "wf_jar (cookies ?env)" by (simp add: wf_jar_def js_def)
  have sum: "(1793612040000::int) + 365 * 24 * 60 * 60 * 1000 = 1825148040000" by simp
  have clip: "TimeClip 1825148040000 = Some 1825148040000"
    unfolding TimeClip_def by simp
  have "cookie_text (js ''theme'') (js ''dark'') 365 1793612040000 =
          Inr (js ''theme'' @ js ''='' @ js ''dark'' @ js ''; expires='' @
               js ''Tue, 02 Nov 2027 09:34:00 GMT'' @ js ''; path=/; SameSite=Lax'')"
    using cookie_text_theme [OF v, of "js ''theme''" 365 1793612040000]
    unfolding sum clip date_example .
  then have written: "cookie_text (js ''theme'') (js ''dark'') 365 1793612040000 =
         Inr (js ''theme=dark; expires=Tue, 02 Nov 2027 09:34:00 GMT; path=/; SameSite=Lax'')"
    by (simp add: js_def)
  have shown: "read_document_cookie [(js ''lang'', js ''en''), (js ''theme'', js ''dark'')] =
               js ''lang=en; theme=dark''"
    by (simp add: js_def)
  let ?env' = "?env\<lparr>cookies := [(js ''lang'', js ''en''), (js ''theme'', js ''dark'')]\<rparr>"
  have "AList.update (js ''theme'') (js ''dark'') (cookies ?env) = cookies ?env'"
    by (simp add: js_def)
  then have stored: "setCookie (js ''theme'') (js ''dark'') 365 ?env = Inr ?env'"
    by (simp add: setCookie_theme [OF v])
  from theme_cookie_roundtrip [OF v wf] obtain env'
    where "setCookie (js ''theme'') (js ''dark'') 365 ?env = Inr env'"
      and "getCookie (js ''theme'') env' = Inr (Some (js ''dark''))"
    by blast
  with stored have got: "getCookie (js ''theme'') ?env' = Inr (Some (js ''dark''))"
    by simp
  have wf': "wf_jar [(js ''lang'', js ''en''), (js ''theme'', js ''system'')]"
    using wf by simp
  show ?thesis
    unfolding Let_def using v wf' written shown stored got encode_theme [OF v] by simp
qed

text \<open>
  C10. The state of the first render is the pair of \<^verbatim>\<open>useState\<close> defaults,
  \<open>isDark = false\<close> and \<open>hasUserPref = false\<close>, whatever is stored and whatever the
  operating system reports: the effects of the first render run with that state and leave
  the dark-mode flag off. The state that initialization resolves from the storage and the
  operating system is only rendered afterwards, when the setter calls it queued take effect.
\<close>

theorem first_render_light:
  "useState_defaults = \<lparr>isDark = False, hasUserPref = False\<rparr> \<and>
   (\<forall>a0 q. first_commit env = Inr (a0, q) \<longrightarrow>
      state a0 = \<lparr>isDark = False, hasUserPref = False\<rparr> \<and> renders a0 = [state a0] \<and>
      dark_class (window a0) = False) \<and>
   (\<forall>a. mount env = Inr a \<longrightarrow>
      hd (renders a) = \<lparr>isDark = False, hasUserPref = False\<rparr> \<and>
      last (renders a) = state a) \<and>
   (\<forall>c. getCookie (js ''theme'') env = Inr c \<longrightarrow>
      (\<exists>a0 q a. first_commit env = Inr (a0, q) \<and> mount env = Inr a \<and>
         rerender q a0 = Inr a \<and>
         state a = resolve c (localStorage env (js ''theme'')) (prefers_dark env)))"
proof (intro conjI allI impI)
  show "useState_defaults = \<lparr>isDark = False, hasUserPref = False\<rparr>"
    by (simp add: useState_defaults_def)
next
  fix a0 q assume "first_commit env = Inr (a0, q)"
  then show "state a0 = \<lparr>isDark = False, hasUserPref = False\<rparr>"
    and "renders a0 = [state a0]" and "dark_class (window a0) = False"
    by (auto simp: first_commit_def apply_effect_eq Let_def useState_defaults_def
          split: sum.splits)
next
  fix a assume m: "mount env = Inr a"
  then obtain c where "getCookie (js ''theme'') env = Inr c" by (rule mount_returns)
  from mount_resolve [OF this] m
  show "hd (renders a) = \<lparr>isDark = False, hasUserPref = False\<rparr>"
    and "last (renders a) = state a"
    by (auto simp: useState_defaults_def settled_def)
next
  fix c assume c: "getCookie (js ''theme'') env = Inr c"
  from mount_resolve [OF c] obtain a
    where a: "mount env = Inr a"
      "state a = resolve c (localStorage env (js ''theme'')) (prefers_dark env)"
    by blast
  then show "\<exists>a0 q a. first_commit env = Inr (a0, q) \<and> mount env = Inr a \<and>
         rerender q a0 = Inr a \<and>
         state a = resolve c (localStorage env (js ''theme'')) (prefers_dark env)"
    by (auto simp: mount_def split: sum.splits)
qed

theorem first_render_light_witness:
  "\<exists>a0 q a.
     first_commit \<lparr>cookies = [(js ''theme'', js ''dark'')], localStorage = Map.empty,
                   dark_class = False, prefers_dark = True, now = 0\<rparr> = Inr (a0, q) \<and>
     state a0 = \<lparr>isDark = False, hasUserPref = False\<rparr> \<and> \<not> dark_class (window a0) \<and>
     rerender q a0 = Inr a \<and>
     renders a = [\<lparr>isDark = False, hasUserPref = False\<rparr>, \<lparr>isDark = True, hasUserPref = True\<rparr>] \<and>
     state a = \<lparr>isDark = True, hasUserPref = True\<rparr> \<and> dark_class (window a)"
proof -
  let ?env = "\<lparr>cookies = [(js ''theme'', js ''dark'')], localStorage = Map.empty,
               dark_class = False, prefers_dark = True, now = 0\<rparr>"
  have "wf_jar (cookies ?env)" by (simp add: wf_jar_def js_def)
  from getCookie_jar [OF this theme_name(1)]
  have c: "getCookie (js ''theme'') ?env = Inr (Some (js ''dark''))"
    by (simp add: decode_theme ThemeCookie_def)
  note here = first_render_light [of ?env]
  from here [THEN conjunct2, THEN conjunct2, THEN conjunct2, rule_format, OF c] obtain a0 q a
    where f: "first_commit ?env = Inr (a0, q)" and m: "mount ?env = Inr a"
      and r: "rerender q a0 = Inr a"
      and s: "state a = resolve (Some (js ''dark'')) (localStorage ?env (js ''theme'')) (prefers_dark ?env)"
    by blast
  from s have s: "state a = \<lparr>isDark = True, hasUserPref = True\<rparr>"
    by (simp add: resolve_simps)
  from here [THEN conjunct2, THEN conjunct1, rule_format, OF f]
  have light: "state a0 = \<lparr>isDark = False, hasUserPref = False\<rparr>" "renders a0 = [state a0]"
    "\<not> dark_class (window a0)"
    by simp_all
  have "renders a = [\<lparr>isDark = False, hasUserPref = False\<rparr>, \<lparr>isDark = True, hasUserPref = True\<rparr>]"
    and "dark_class (window a)"
    using r s light by (auto simp: rerender_eq Let_def toggleTheme_def split: if_splits)
  with f light r s show ?thesis by blast
qed

end
